theory Spec2Isabelle
  imports Complex_Main "HOL-Library.Multiset" "HOL-Library.AList"
begin

section \<open>Data model\<close>

text \<open>
  The analysis functions of \<^verbatim>\<open>edisgo/flex_opt/check_tech_constraints.py\<close> read pandas
  tables hanging off one \<^verbatim>\<open>edisgo_obj\<close>. A time step is a label of the time index; the
  model takes natural numbers for the time stamps. Floating-point values are idealised
  as real numbers, and a table handed to the functions holds no NaN.

  A \<^verbatim>\<open>DataFrame\<close> is its row labels, its column labels and its cells. A
  \<^verbatim>\<open>Series\<close> is an association list from labels to values; its \<^verbatim>\<open>.loc[labels]\<close>
  raises \<^verbatim>\<open>KeyError\<close> when a label is missing.
\<close>

type_synonym timestamp = nat

record dataframe =
  df_index :: "timestamp list"
  df_columns :: "string list"
  df_at :: "timestamp \<Rightarrow> string \<Rightarrow> real"

type_synonym series = "(timestamp \<times> real) list"

text \<open>
  Every \<^verbatim>\<open>raise\<close> of the two modules is a value of \<open>error\<close>, named by the kind of
  failure: \<open>NoResultsAvailable\<close> is \<^verbatim>\<open>Exception("No power flow results to check over-load for. ...")\<close>,
  \<open>InvalidArgument\<close> the \<^verbatim>\<open>ValueError\<close>s for an option or a grid that is not valid,
  \<open>PrerequisiteMissing\<close> is \<^verbatim>\<open>ValueError("MV was not included in power flow analysis, ...")\<close>,
  \<open>FatalConstraintViolation\<close> is \<^verbatim>\<open>ValueError("Maximum allowed voltage deviation of 10% exceeded.")\<close>.
  The other five are raised by Python and pandas themselves: a label that a table does
  not have, a position that a table does not have, a local variable read before it is
  bound, the position of the minimum of a series with no entry, \<^verbatim>\<open>list.index\<close> of a
  value that the list does not hold.
\<close>

datatype error =
    NoResultsAvailable
  | InvalidArgument
  | PrerequisiteMissing
  | FatalConstraintViolation
  | KeyError
  | IndexError
  | UnboundLocalError
  | EmptySequence
  | NotInList

text \<open>The two classifications of a time step, with the strings the configuration keys use.\<close>

datatype tcase = feed_in_case | load_case

fun case_name :: "tcase \<Rightarrow> string" where
  "case_name feed_in_case = ''feed-in_case''"
| "case_name load_case = ''load_case''"

text \<open>Rows of \<^verbatim>\<open>lines_df\<close> and \<^verbatim>\<open>transformers_df\<close>: the index (name) and the columns read here.\<close>

record line =
  line_name :: string
  line_bus0 :: string
  line_bus1 :: string
  line_s_nom :: real

record transformer =
  trafo_name :: string
  trafo_bus0 :: string
  trafo_bus1 :: string
  trafo_s_nom :: real

text \<open>
  A grid object. The code dispatches on \<^verbatim>\<open>isinstance(grid, LVGrid)\<close> and
  \<^verbatim>\<open>isinstance(grid, MVGrid)\<close> and raises for anything else.
\<close>

datatype grid_class = LVGrid | MVGrid | OtherGrid

record grid =
  grid_class_of :: grid_class
  station_name :: string
  grid_lines_df :: "line list"
  grid_transformers_df :: "transformer list"
  grid_buses_df :: "string list"

record topology =
  lines_df :: "line list"
  mv_grid :: grid
  lv_grids :: "grid list"
  transformers_hvmv_df :: "transformer list"
  rings :: "string list list"

text \<open>\<^verbatim>\<open>pfa_slack\<close> has the columns \<^verbatim>\<open>p\<close> and \<^verbatim>\<open>q\<close>.\<close>

record results =
  i_res :: dataframe
  s_res :: dataframe
  v_res :: dataframe
  pfa_slack :: "(timestamp \<times> real \<times> real) list"

text \<open>
  \<open>grid_expansion_load_factors\<close> is \<^verbatim>\<open>edisgo_obj.config["grid_expansion_load_factors"]\<close>, a
  dictionary from key strings to factors, and \<open>timesteps_load_feedin_case\<close> is
  \<^verbatim>\<open>edisgo_obj.timeseries.timesteps_load_feedin_case\<close>.
\<close>

record edisgo =
  results :: results
  topology :: topology
  grid_expansion_load_factors :: "(string \<times> real) list"
  timesteps_load_feedin_case :: "(timestamp \<times> tcase) list"

subsection \<open>Table primitives\<close>

text \<open>\<^verbatim>\<open>df.empty\<close>: an axis of length zero.\<close>

definition df_empty :: "dataframe \<Rightarrow> bool" where
  "df_empty df = (df_index df = [] \<or> df_columns df = [])"

text \<open>\<^verbatim>\<open>(df <cond>).any().any()\<close>: some cell of the table satisfies the condition.\<close>

definition df_any :: "(real \<Rightarrow> bool) \<Rightarrow> dataframe \<Rightarrow> bool" where
  "df_any P df = list_ex (\<lambda>c. list_ex (\<lambda>t. P (df_at df t c)) (df_index df)) (df_columns df)"

text \<open>\<^verbatim>\<open>dict[key]\<close> and \<^verbatim>\<open>series.loc[label]\<close>.\<close>

definition lookup :: "('k \<times> 'v) list \<Rightarrow> 'k \<Rightarrow> error + 'v" where
  "lookup m k = (case map_of m k of None \<Rightarrow> Inl KeyError | Some v \<Rightarrow> Inr v)"

text \<open>\<^verbatim>\<open>series.loc[labels]\<close> for a list of labels: the values in the order of the labels.\<close>

fun loc_list :: "('k \<times> 'v) list \<Rightarrow> 'k list \<Rightarrow> error + 'v list" where
  "loc_list m [] = Inr []"
| "loc_list m (k # ks) =
     (case lookup m k of
        Inl e \<Rightarrow> Inl e
      | Inr v \<Rightarrow> (case loc_list m ks of Inl e \<Rightarrow> Inl e | Inr vs \<Rightarrow> Inr (v # vs)))"

section \<open>The strict band of ten percent\<close>

text \<open>
  \<^verbatim>\<open>check_ten_percent_voltage_deviation\<close>: raises when a cell of \<^verbatim>\<open>v_res\<close> is above 1.1
  or below 0.9, and returns nothing otherwise.
\<close>

definition check_ten_percent_voltage_deviation :: "edisgo \<Rightarrow> error + unit" where
  "check_ten_percent_voltage_deviation edisgo_obj =
     (let v_mag_pu_pfa = v_res (results edisgo_obj) in
      if df_any (\<lambda>v. v > 1.1) v_mag_pu_pfa \<or> df_any (\<lambda>v. v < 0.9) v_mag_pu_pfa
      then Inl FatalConstraintViolation
      else Inr ())"

text \<open>An object with nothing in it, to build the scenarios from.\<close>

definition empty_df :: dataframe where
  "empty_df = \<lparr>df_index = [], df_columns = [], df_at = (\<lambda>t c. 0)\<rparr>"

definition empty_grid :: grid where
  "empty_grid = \<lparr>grid_class_of = MVGrid, station_name = ''MVGrid_1_station'',
     grid_lines_df = [], grid_transformers_df = [], grid_buses_df = []\<rparr>"

definition empty_edisgo :: edisgo where
  "empty_edisgo =
     \<lparr>results = \<lparr>i_res = empty_df, s_res = empty_df, v_res = empty_df, pfa_slack = []\<rparr>,
      topology = \<lparr>lines_df = [], mv_grid = empty_grid, lv_grids = [],
        transformers_hvmv_df = [], rings = []\<rparr>,
      grid_expansion_load_factors = [],
      timesteps_load_feedin_case = []\<rparr>"

text \<open>The scenario of the specification: one bus with the voltages 0.88, 1.12, 1.0, 1.0.\<close>

definition band_scenario :: edisgo where
  "band_scenario = empty_edisgo
     \<lparr>results := (results empty_edisgo)
        \<lparr>v_res := \<lparr>df_index = [0, 1, 2, 3], df_columns = [''Bus_1''],
           df_at = (\<lambda>t c. [0.88, 1.12, 1.0, 1.0] ! t)\<rparr>\<rparr>\<rparr>"

section \<open>Voltage deviations\<close>

text \<open>\<^verbatim>\<open>df.loc[:, labels]\<close>: the columns named, \<^verbatim>\<open>KeyError\<close> when one is missing.\<close>

definition loc_columns :: "dataframe \<Rightarrow> string list \<Rightarrow> error + dataframe" where
  "loc_columns df labels =
     (if list_all (\<lambda>l. l \<in> set (df_columns df)) labels
      then Inr \<lparr>df_index = df_index df, df_columns = labels, df_at = df_at df\<rparr>
      else Inl KeyError)"

text \<open>
  \<^verbatim>\<open>.max()\<close> over a row: the largest value, and NaN (here \<open>None\<close>) for a row with no
  entry. A comparison with NaN is false.
\<close>

fun row_max :: "real list \<Rightarrow> real option" where
  "row_max [] = None"
| "row_max (x # xs) = Some (fold max xs x)"

fun nan_gt :: "real option \<Rightarrow> real option \<Rightarrow> bool" where
  "nan_gt (Some a) (Some b) = (a > b)"
| "nan_gt _ _ = False"

text \<open>\<^verbatim>\<open>.idxmax()\<close>: the label of the first occurrence of the largest value.\<close>

fun first_max :: "'k \<times> real \<Rightarrow> ('k \<times> real) list \<Rightarrow> 'k \<times> real" where
  "first_max best [] = best"
| "first_max best (p # ps) = first_max (if snd p > snd best then p else best) ps"

fun idxmax :: "('k \<times> real) list \<Rightarrow> 'k option" where
  "idxmax [] = None"
| "idxmax (p # ps) = Some (fst (first_max p ps))"

text \<open>
  The two tables \<^verbatim>\<open>voltage_diff\<close> returns have one row per bus and one column per time
  step of the power flow: a row is the bus name and its values along the time index.
\<close>

type_synonym devframe = "(string \<times> real list) list"

text \<open>
  \<^verbatim>\<open>voltage_diff(edisgo_obj, buses, v_dev_allowed_upper, v_dev_allowed_lower)\<close>. The
  local names are the source's. \<open>overvoltage\<close> and \<open>undervoltage\<close> keep the buses that
  have a value above the upper (below the lower) limit at some time step
  (\<^verbatim>\<open>dropna(how="all")\<close> of the masked table); \<open>buses_both\<close> are the buses of
  \<open>overvoltage\<close> that are in \<open>undervoltage\<close> too. Of those, \<open>voltage_diff_ov\<close> keeps the
  rows whose largest deviation above the upper limit is greater than the largest one
  below the lower limit, and \<open>voltage_diff_uv\<close> the rows that \<open>voltage_diff_ov\<close> did not
  keep. The buses with one kind of violation only are appended to their table. The
  result is the pair (undervoltage table, overvoltage table).
\<close>

definition voltage_diff ::
  "edisgo \<Rightarrow> string list \<Rightarrow> series \<Rightarrow> series \<Rightarrow> error + (devframe \<times> devframe)" where
  "voltage_diff edisgo_obj buses v_dev_allowed_upper v_dev_allowed_lower =
     (case loc_columns (v_res (results edisgo_obj)) buses of
        Inl e \<Rightarrow> Inl e
      | Inr v_mag_pu_pfa \<Rightarrow>
     (case loc_list v_dev_allowed_upper (df_index v_mag_pu_pfa) of
        Inl e \<Rightarrow> Inl e
      | Inr upper \<Rightarrow>
     (case loc_list v_dev_allowed_lower (df_index v_mag_pu_pfa) of
        Inl e \<Rightarrow> Inl e
      | Inr lower \<Rightarrow>
        (let row = (\<lambda>b. map (\<lambda>t. df_at v_mag_pu_pfa t b) (df_index v_mag_pu_pfa));
             overvoltage =
               filter (\<lambda>b. list_ex (\<lambda>(v, u). v > u) (zip (row b) upper))
                 (df_columns v_mag_pu_pfa);
             undervoltage =
               filter (\<lambda>b. list_ex (\<lambda>(v, l). v < l) (zip (row b) lower))
                 (df_columns v_mag_pu_pfa);
             buses_both = filter (\<lambda>b. b \<in> set undervoltage) overvoltage;
             diff_ov = (\<lambda>b. map (\<lambda>(v, u). v - u) (zip (row b) upper));
             diff_uv = (\<lambda>b. map (\<lambda>(v, l). - v + l) (zip (row b) lower));
             voltage_diff_ov =
               filter (\<lambda>b. nan_gt (row_max (diff_ov b)) (row_max (diff_uv b))) buses_both;
             voltage_diff_uv = filter (\<lambda>b. b \<notin> set voltage_diff_ov) buses_both;
             buses_ov = filter (\<lambda>b. b \<notin> set buses_both) overvoltage;
             buses_uv = filter (\<lambda>b. b \<notin> set buses_both) undervoltage
         in Inr (map (\<lambda>b. (b, diff_uv b)) (voltage_diff_uv @ buses_uv),
                 map (\<lambda>b. (b, diff_ov b)) (voltage_diff_ov @ buses_ov))))))"





text \<open>
  Scenarios. One bus that is above the upper limit at the first time step and below the
  lower limit at the second, by more; and two buses with the same overvoltage.
\<close>

definition both_scenario :: edisgo where
  "both_scenario = empty_edisgo
     \<lparr>results := (results empty_edisgo)
        \<lparr>v_res := \<lparr>df_index = [0, 1], df_columns = [''Bus_1'', ''Bus_2''],
           df_at = (\<lambda>t c. if c = ''Bus_1'' then [1.25, 0.25] ! t else 1)\<rparr>\<rparr>\<rparr>"


section \<open>Allowed and realised loading\<close>

text \<open>
  A table with one row per time step and one column per line is a list of rows, each
  the time step and the values by line name. \<^verbatim>\<open>lines_df.loc[names]\<close> gives the rows
  with the names listed, in the order of the list.
\<close>

type_synonym loadframe = "(timestamp \<times> (string \<times> real) list) list"

definition loc_lines :: "line list \<Rightarrow> string list \<Rightarrow> line list" where
  "loc_lines df names = concat (map (\<lambda>n. filter (\<lambda>l. line_name l = n) df) names)"

text \<open>
  The lines of a voltage level, as both \<^verbatim>\<open>_lines_allowed_load_voltage_level\<close> and
  \<^verbatim>\<open>_line_overload\<close> select them: for \<^verbatim>\<open>"lv"\<close> the lines of the topology that are
  not lines of the MV grid, for \<^verbatim>\<open>"mv"\<close> the lines of the MV grid, and a
  \<^verbatim>\<open>ValueError\<close> for any other string.
\<close>

definition lines_in_voltage_level :: "edisgo \<Rightarrow> string \<Rightarrow> error + line list" where
  "lines_in_voltage_level edisgo_obj voltage_level =
     (let mv = mv_grid (topology edisgo_obj) in
      if voltage_level = ''lv''
      then Inr (filter
                 (\<lambda>l. line_name l \<notin> set (map line_name (grid_lines_df mv)))
                 (lines_df (topology edisgo_obj)))
      else if voltage_level = ''mv'' then Inr (grid_lines_df mv)
      else Inl InvalidArgument)"

text \<open>
  One pass of the loop \<^verbatim>\<open>for case in ["feed-in_case", "load_case"]\<close> of
  \<^verbatim>\<open>_lines_allowed_load_voltage_level\<close>: the entry \<^verbatim>\<open>allowed_load_per_case[case]\<close>, a
  series of allowed loads by line name. The factor is read from the configuration under
  the key \<^verbatim>\<open>f"{voltage_level}_{case}_line"\<close>. When it is not 1.0, the lines with both
  end buses among the buses of the rings get \<open>s_nom * factor\<close> and come first, the other
  lines get \<open>s_nom\<close> and follow; when it is 1.0 every line gets \<open>s_nom * factor\<close>.
\<close>

definition allowed_load_per_case ::
  "edisgo \<Rightarrow> string \<Rightarrow> line list \<Rightarrow> tcase \<Rightarrow> error + (string \<times> real) list" where
  "allowed_load_per_case edisgo_obj voltage_level lines_vl cs =
     (case lookup (grid_expansion_load_factors edisgo_obj)
             (voltage_level @ ''_'' @ case_name cs @ ''_line'') of
        Inl e \<Rightarrow> Inl e
      | Inr factor \<Rightarrow>
        if factor \<noteq> 1.0
        then
          (let buses_in_cycles = remdups (concat (rings (topology edisgo_obj)));
               lines_in_cycles =
                 map line_name
                   (filter (\<lambda>l. line_bus0 l \<in> set buses_in_cycles
                              \<and> line_bus1 l \<in> set buses_in_cycles) lines_vl);
               lines_radial_feeders =
                 map line_name (filter (\<lambda>l. line_name l \<notin> set lines_in_cycles) lines_vl)
           in Inr (map (\<lambda>l. (line_name l, line_s_nom l * factor))
                     (loc_lines lines_vl lines_in_cycles)
                   @ map (\<lambda>l. (line_name l, line_s_nom l))
                     (loc_lines lines_vl lines_radial_feeders)))
        else Inr (map (\<lambda>l. (line_name l, line_s_nom l * factor)) lines_vl))"

text \<open>
  \<^verbatim>\<open>_lines_allowed_load_voltage_level(edisgo_obj, voltage_level)\<close>: both entries of
  \<^verbatim>\<open>allowed_load_per_case\<close> are computed first; then every time step of \<^verbatim>\<open>i_res\<close> gets the
  entry of its case, which \<^verbatim>\<open>timesteps_load_feedin_case.loc[...]\<close> looks up.
\<close>

definition lines_allowed_load_voltage_level :: "edisgo \<Rightarrow> string \<Rightarrow> error + loadframe" where
  "lines_allowed_load_voltage_level edisgo_obj voltage_level =
     (case lines_in_voltage_level edisgo_obj voltage_level of
        Inl e \<Rightarrow> Inl e
      | Inr lines_vl \<Rightarrow>
     (case allowed_load_per_case edisgo_obj voltage_level lines_vl feed_in_case of
        Inl e \<Rightarrow> Inl e
      | Inr allowed_feed_in \<Rightarrow>
     (case allowed_load_per_case edisgo_obj voltage_level lines_vl load_case of
        Inl e \<Rightarrow> Inl e
      | Inr allowed_load \<Rightarrow>
     (case loc_list (timesteps_load_feedin_case edisgo_obj)
             (df_index (i_res (results edisgo_obj))) of
        Inl e \<Rightarrow> Inl e
      | Inr cases \<Rightarrow>
          Inr (zip (df_index (i_res (results edisgo_obj)))
                 (map (\<lambda>c. case c of feed_in_case \<Rightarrow> allowed_feed_in
                                     | load_case \<Rightarrow> allowed_load) cases))))))"

text \<open>
  The scenario of the specification: the lines A-B and B-C on one ring, rated 1.0 MVA
  each, with a load factor of 0.5 in the load case and of 1.0 in the feed-in case; a
  third line C-D leaves the ring.
\<close>

definition ring_lines :: "line list" where
  "ring_lines =
     [\<lparr>line_name = ''Line_AB'', line_bus0 = ''A'', line_bus1 = ''B'', line_s_nom = 1\<rparr>,
      \<lparr>line_name = ''Line_BC'', line_bus0 = ''B'', line_bus1 = ''C'', line_s_nom = 1\<rparr>,
      \<lparr>line_name = ''Line_CD'', line_bus0 = ''C'', line_bus1 = ''D'', line_s_nom = 1\<rparr>]"

definition ring_scenario :: edisgo where
  "ring_scenario =
     \<lparr>results = \<lparr>i_res = \<lparr>df_index = [0, 1],
                    df_columns = [''Line_AB'', ''Line_BC'', ''Line_CD''],
                    df_at = (\<lambda>t c. 0)\<rparr>,
                  s_res = \<lparr>df_index = [0, 1],
                    df_columns = [''Line_AB'', ''Line_BC'', ''Line_CD''],
                    df_at = (\<lambda>t c. 0)\<rparr>,
                  v_res = empty_df, pfa_slack = []\<rparr>,
      topology = \<lparr>lines_df = ring_lines,
        mv_grid = empty_grid\<lparr>grid_lines_df := ring_lines\<rparr>, lv_grids = [],
        transformers_hvmv_df = [], rings = [[''A'', ''B'', ''C'']]\<rparr>,
      grid_expansion_load_factors =
        [(''mv_load_case_line'', 0.5), (''mv_feed-in_case_line'', 1.0)],
      timesteps_load_feedin_case = [(0, load_case), (1, feed_in_case)]\<rparr>"

section \<open>Overload of lines and stations\<close>

text \<open>
  Arithmetic of two series aligns them by label: a label that only one of them has
  gives NaN, which no later comparison keeps and \<^verbatim>\<open>dropna\<close> drops. \<open>series_align\<close> is
  the aligned operation with those entries dropped already; its entries follow the
  order of the first series (the time indexes are ascending). Division is the division
  of the reals: where pandas divides by a zero it gives an infinity, which the reals do
  not have, so the theorems on quotients ask for divisors that are not zero.
\<close>

definition series_align :: "(real \<Rightarrow> real \<Rightarrow> real) \<Rightarrow> series \<Rightarrow> series \<Rightarrow> series" where
  "series_align f a b =
     List.map_filter
       (\<lambda>(t, x). case map_of b t of None \<Rightarrow> None | Some y \<Rightarrow> Some (t, f x y)) a"

text \<open>\<^verbatim>\<open>.min()\<close> and \<^verbatim>\<open>.idxmin()\<close>, as \<open>row_max\<close> and \<open>idxmax\<close> above.\<close>

fun row_min :: "real list \<Rightarrow> real option" where
  "row_min [] = None"
| "row_min (x # xs) = Some (fold min xs x)"

fun first_min :: "'k \<times> real \<Rightarrow> ('k \<times> real) list \<Rightarrow> 'k \<times> real" where
  "first_min best [] = best"
| "first_min best (p # ps) = first_min (if snd p < snd best then p else best) ps"

fun idxmin :: "('k \<times> real) list \<Rightarrow> 'k option" where
  "idxmin [] = None"
| "idxmin (p # ps) = Some (fst (first_min p ps))"

text \<open>
  \<^verbatim>\<open>timesteps_load_feedin_case.apply(lambda _: config[...][f"{voltage_level}_{_}_transformer"])\<close>:
  the load factor of the transformers per time step. A key that the configuration does
  not have raises at the first time step that needs it.
\<close>

fun transformer_load_factor ::
  "(string \<times> real) list \<Rightarrow> string \<Rightarrow> (timestamp \<times> tcase) list \<Rightarrow> error + series" where
  "transformer_load_factor cfg voltage_level [] = Inr []"
| "transformer_load_factor cfg voltage_level ((t, c) # rest) =
     (case lookup cfg (voltage_level @ ''_'' @ case_name c @ ''_transformer'') of
        Inl e \<Rightarrow> Inl e
      | Inr f \<Rightarrow>
          (case transformer_load_factor cfg voltage_level rest of
             Inl e \<Rightarrow> Inl e
           | Inr fs \<Rightarrow> Inr ((t, f) # fs)))"

text \<open>
  \<^verbatim>\<open>_station_load(edisgo_obj, grid)\<close>: for an LV grid the sum of \<^verbatim>\<open>s_res\<close> over the
  grid's transformers per time step; for the MV grid the apparent power at the slack,
  \<^verbatim>\<open>np.hypot(p, q)\<close>, after the test that some MV line is a column of \<^verbatim>\<open>i_res\<close>.
\<close>

definition station_load :: "edisgo \<Rightarrow> grid \<Rightarrow> error + series" where
  "station_load edisgo_obj grid =
     (case grid_class_of grid of
        LVGrid \<Rightarrow>
          (case loc_columns (s_res (results edisgo_obj))
                  (map trafo_name (grid_transformers_df grid)) of
             Inl e \<Rightarrow> Inl e
           | Inr df \<Rightarrow>
               Inr (map (\<lambda>t. (t, sum_list (map (df_at df t) (df_columns df)))) (df_index df)))
      | MVGrid \<Rightarrow>
          (let mv_lines = map line_name (grid_lines_df (mv_grid (topology edisgo_obj))) in
           if \<not> list_ex (\<lambda>l. l \<in> set (df_columns (i_res (results edisgo_obj)))) mv_lines
           then Inl PrerequisiteMissing
           else Inr (map (\<lambda>(t, p, q). (t, sqrt (p\<^sup>2 + q\<^sup>2))) (pfa_slack (results edisgo_obj))))
      | OtherGrid \<Rightarrow> Inl InvalidArgument)"

text \<open>
  \<^verbatim>\<open>_station_allowed_load(edisgo_obj, grid)\<close>: the sum of the ratings of the station's
  transformers times the load factor of each time step.
\<close>

definition station_allowed_load :: "edisgo \<Rightarrow> grid \<Rightarrow> error + series" where
  "station_allowed_load edisgo_obj grid =
     (case (case grid_class_of grid of
              LVGrid \<Rightarrow> Inr (''lv'', grid_transformers_df grid)
            | MVGrid \<Rightarrow> Inr (''mv'', transformers_hvmv_df (topology edisgo_obj))
            | OtherGrid \<Rightarrow> Inl InvalidArgument) of
        Inl e \<Rightarrow> Inl e
      | Inr (voltage_level, transformers_df) \<Rightarrow>
          (let s_station = sum_list (map trafo_s_nom transformers_df) in
           case transformer_load_factor (grid_expansion_load_factors edisgo_obj)
                  voltage_level (timesteps_load_feedin_case edisgo_obj) of
             Inl e \<Rightarrow> Inl e
           | Inr load_factor \<Rightarrow> Inr (map (\<lambda>(t, f). (t, s_station * f)) load_factor)))"

text \<open>The row of a station report; the index of the table is the station's name.\<close>

record station_row =
  st_station :: string
  s_missing :: real
  st_time_index :: timestamp
  st_grid :: grid

text \<open>
  \<^verbatim>\<open>_station_overload(edisgo_obj, grid)\<close>. \<open>s_res\<close> is the residual, allowed minus
  realised load, of which the negative entries are kept. When there is one, every kept
  residual is divided by the load factor of its time step, and the report is one row
  with the absolute value of the smallest quotient and the time step of it. Otherwise
  the report is empty.
\<close>

definition station_overload :: "edisgo \<Rightarrow> grid \<Rightarrow> error + station_row list" where
  "station_overload edisgo_obj grid =
     (case (case grid_class_of grid of
              LVGrid \<Rightarrow> Inr ''lv'' | MVGrid \<Rightarrow> Inr ''mv'' | OtherGrid \<Rightarrow> Inl InvalidArgument) of
        Inl e \<Rightarrow> Inl e
      | Inr voltage_level \<Rightarrow>
     (case station_load edisgo_obj grid of
        Inl e \<Rightarrow> Inl e
      | Inr s_station_pfa \<Rightarrow>
     (case station_allowed_load edisgo_obj grid of
        Inl e \<Rightarrow> Inl e
      | Inr s_station_allowed \<Rightarrow>
        (let s_res = series_align (\<lambda>a p. a - p) s_station_allowed s_station_pfa;
             s_res = filter (\<lambda>(t, r). r < 0) s_res
         in if s_res \<noteq> []
            then
              (case transformer_load_factor (grid_expansion_load_factors edisgo_obj)
                      voltage_level (timesteps_load_feedin_case edisgo_obj) of
                 Inl e \<Rightarrow> Inl e
               | Inr load_factor \<Rightarrow>
                   (let s_missing = series_align (\<lambda>r f. r / f) s_res load_factor in
                    case (row_min (map snd s_missing), idxmin s_missing) of
                      (Some m, Some t) \<Rightarrow>
                        Inr [\<lparr>st_station = station_name grid, s_missing = \<bar>m\<bar>,
                              st_time_index = t, st_grid = grid\<rparr>]
                    | _ \<Rightarrow> Inl EmptySequence))
            else Inr []))))"

text \<open>
  \<^verbatim>\<open>lines_allowed_load(edisgo_obj, lines)\<close>: the tables of both voltage levels side by
  side, restricted to the lines asked for (all of them for \<^verbatim>\<open>None\<close>), for a power
  flow of at least one time step.
\<close>

definition lines_allowed_load :: "edisgo \<Rightarrow> string list option \<Rightarrow> error + loadframe" where
  "lines_allowed_load edisgo_obj lines =
     (case lines_allowed_load_voltage_level edisgo_obj ''lv'' of
        Inl e \<Rightarrow> Inl e
      | Inr allowed_load_lv \<Rightarrow>
     (case lines_allowed_load_voltage_level edisgo_obj ''mv'' of
        Inl e \<Rightarrow> Inl e
      | Inr allowed_load_mv \<Rightarrow>
        (let allowed_load =
               map (\<lambda>((t, lv), (t', mv)). (t, lv @ mv)) (zip allowed_load_lv allowed_load_mv)
         in case lines of
              None \<Rightarrow> Inr allowed_load
            | Some ls \<Rightarrow>
                if list_all (\<lambda>(t, row). list_all (\<lambda>l. l \<in> set (map fst row)) ls) allowed_load
                then Inr (map (\<lambda>(t, row). (t, filter (\<lambda>(l, a). l \<in> set ls) row)) allowed_load)
                else Inl KeyError)))"

text \<open>
  \<^verbatim>\<open>lines_relative_load(edisgo_obj, lines)\<close>: per line a column of the realised over the
  allowed load, for the time steps that both tables have.
\<close>

definition lines_relative_load ::
  "edisgo \<Rightarrow> string list option \<Rightarrow> error + (string \<times> series) list" where
  "lines_relative_load edisgo_obj lines =
     (let lines = (case lines of None \<Rightarrow> df_columns (i_res (results edisgo_obj))
                               | Some ls \<Rightarrow> ls) in
      case lines_allowed_load edisgo_obj (Some lines) of
        Inl e \<Rightarrow> Inl e
      | Inr allowed_loading \<Rightarrow>
     (case loc_columns (s_res (results edisgo_obj)) lines of
        Inl e \<Rightarrow> Inl e
      | Inr loading \<Rightarrow>
          Inr (map (\<lambda>l. (l,
                 List.map_filter
                   (\<lambda>t. case map_of allowed_loading t of
                          None \<Rightarrow> None
                        | Some row \<Rightarrow>
                            (case map_of row l of
                               None \<Rightarrow> None
                             | Some a \<Rightarrow> Some (t, df_at loading t l / a)))
                   (df_index loading)))
               lines)))"

text \<open>The row of a line report; the index of the table is the line's name.\<close>

record line_row =
  lr_line :: string
  max_rel_overload :: real
  lr_time_index :: timestamp
  lr_voltage_level :: string

text \<open>
  \<^verbatim>\<open>_line_overload(edisgo_obj, voltage_level)\<close>: the guard on an empty \<^verbatim>\<open>i_res\<close> comes
  first; then, per line of the level, the largest relative load above 1 and the time
  step of the largest relative load.
\<close>

definition line_overload :: "edisgo \<Rightarrow> string \<Rightarrow> error + line_row list" where
  "line_overload edisgo_obj voltage_level =
     (if df_empty (i_res (results edisgo_obj)) then Inl NoResultsAvailable
      else
     (case lines_in_voltage_level edisgo_obj voltage_level of
        Inl e \<Rightarrow> Inl e
      | Inr lines_vl \<Rightarrow>
     (case lines_relative_load edisgo_obj (Some (map line_name lines_vl)) of
        Inl e \<Rightarrow> Inl e
      | Inr relative_i_res \<Rightarrow>
          Inr (List.map_filter
                 (\<lambda>(l, col).
                    case (row_max (filter (\<lambda>v. v > 1) (map snd col)), idxmax col) of
                      (Some m, Some t) \<Rightarrow>
                        Some \<lparr>lr_line = l, max_rel_overload = m, lr_time_index = t,
                              lr_voltage_level = voltage_level\<rparr>
                    | _ \<Rightarrow> None)
                 relative_i_res))))"

text \<open>
  The missing capacity as the specification words it: the absolute value of the smallest
  residual over all time steps, divided by the load factor of the time step of that
  smallest residual, reported with that time step.
\<close>

definition spec_s_missing :: "series \<Rightarrow> series \<Rightarrow> (real \<times> timestamp) option" where
  "spec_s_missing residual load_factor =
     (case (row_min (map snd residual), idxmin residual) of
        (Some m, Some t) \<Rightarrow>
          (case map_of load_factor t of None \<Rightarrow> None | Some f \<Rightarrow> Some (\<bar>m\<bar> / f, t))
      | _ \<Rightarrow> None)"

text \<open>
  Scenarios. An LV grid whose station has one transformer of 1 MVA, with a load factor of
  1.0 in the load case and of 0.5 in the feed-in case: the station carries 1.5 MVA at
  time step 0 (load case) and 0.875 MVA at time step 1 (feed-in case). And the
  scenario of the specification: 0.63 MVA of rating, a factor of 1.0, 0.7 MVA realised.
\<close>

definition lv_grid_1 :: grid where
  "lv_grid_1 = \<lparr>grid_class_of = LVGrid, station_name = ''LVGrid_1_station'',
     grid_lines_df = [],
     grid_transformers_df =
       [\<lparr>trafo_name = ''T_1'', trafo_bus0 = ''A'', trafo_bus1 = ''B'', trafo_s_nom = 1\<rparr>],
     grid_buses_df = [''B'']\<rparr>"

definition station_scenario :: edisgo where
  "station_scenario = empty_edisgo
     \<lparr>results := (results empty_edisgo)
        \<lparr>i_res := \<lparr>df_index = [0, 1], df_columns = [''T_1''], df_at = (\<lambda>t c. 0)\<rparr>,
         s_res := \<lparr>df_index = [0, 1], df_columns = [''T_1''],
           df_at = (\<lambda>t c. [1.5, 0.875] ! t)\<rparr>\<rparr>,
      grid_expansion_load_factors :=
        [(''lv_load_case_transformer'', 1.0), (''lv_feed-in_case_transformer'', 0.5)],
      timesteps_load_feedin_case := [(0, load_case), (1, feed_in_case)]\<rparr>"

definition lv_grid_063 :: grid where
  "lv_grid_063 = \<lparr>grid_class_of = LVGrid, station_name = ''LVGrid_1_station'',
     grid_lines_df = [],
     grid_transformers_df =
       [\<lparr>trafo_name = ''T_1'', trafo_bus0 = ''A'', trafo_bus1 = ''B'', trafo_s_nom = 0.63\<rparr>],
     grid_buses_df = [''B'']\<rparr>"

definition station_scenario_063 :: edisgo where
  "station_scenario_063 = empty_edisgo
     \<lparr>results := (results empty_edisgo)
        \<lparr>i_res := \<lparr>df_index = [0], df_columns = [''T_1''], df_at = (\<lambda>t c. 0)\<rparr>,
         s_res := \<lparr>df_index = [0], df_columns = [''T_1''], df_at = (\<lambda>t c. 0.7)\<rparr>\<rparr>,
      grid_expansion_load_factors :=
        [(''lv_load_case_transformer'', 1.0), (''lv_feed-in_case_transformer'', 1.0)],
      timesteps_load_feedin_case := [(0, load_case)]\<rparr>"

text \<open>
  A network with one MV line for which no power flow was run: every result table is
  empty.
\<close>

definition no_results_scenario :: edisgo where
  "no_results_scenario = empty_edisgo
     \<lparr>topology := (topology empty_edisgo)
        \<lparr>lines_df := [\<lparr>line_name = ''Line_1'', line_bus0 = ''A'', line_bus1 = ''B'',
             line_s_nom = 1\<rparr>],
         mv_grid := empty_grid
           \<lparr>grid_lines_df := [\<lparr>line_name = ''Line_1'', line_bus0 = ''A'', line_bus1 = ''B'',
               line_s_nom = 1\<rparr>]\<rparr>,
         lv_grids := [lv_grid_1]\<rparr>,
      grid_expansion_load_factors :=
        [(''mv_load_case_transformer'', 0.5), (''mv_feed-in_case_transformer'', 1.0),
         (''lv_load_case_transformer'', 1.0), (''lv_feed-in_case_transformer'', 1.0),
         (''mv_load_case_line'', 0.5), (''mv_feed-in_case_line'', 1.0),
         (''lv_load_case_line'', 1.0), (''lv_feed-in_case_line'', 1.0)],
      timesteps_load_feedin_case := [(0, load_case), (1, feed_in_case)]\<rparr>"

section \<open>Export to the PowerModels format\<close>

text \<open>
  \<^verbatim>\<open>edisgo/io/powermodels_io.py\<close> reads a pypsa network. Its component tables are lists
  of rows in the order of the table, with the index (the name) as a field; its time
  series tables are lists of columns, each a name and the values by snapshot.
\<close>

record psa_bus =
  pb_name :: string
  pb_control :: string
  pb_v_mag_pu_max :: real
  pb_v_mag_pu_min :: real
  pb_v_mag_pu_set :: real
  pb_v_nom :: real

record psa_generator =
  pg_name :: string
  pg_bus :: string
  pg_p_set :: real
  pg_q_set :: real
  pg_p_max_pu :: real
  pg_p_min_pu :: real
  pg_p_nom :: real

record psa_line =
  pl_name :: string
  pl_bus0 :: string
  pl_bus1 :: string
  pl_r_pu :: real
  pl_x_pu :: real
  pl_b_pu :: real
  pl_g_pu :: real
  pl_s_nom :: real

record psa_transformer =
  pt_name :: string
  pt_bus0 :: string
  pt_bus1 :: string
  pt_r :: real
  pt_x :: real
  pt_s_nom :: real
  pt_r_pu :: real
  pt_x_pu :: real
  pt_b_pu :: real
  pt_g_pu :: real
  pt_tap_ratio :: real
  pt_phase_shift :: real

record psa_load =
  pld_name :: string
  pld_bus :: string
  pld_p_set :: real
  pld_q_set :: real
  pld_cop :: real
  pld_p_max :: real

record psa_storage_unit =
  psu_name :: string
  psu_bus :: string
  psu_p_set :: real
  psu_q_set :: real
  psu_state_of_charge_initial :: real
  psu_p_max_pu :: real
  psu_p_min_pu :: real

type_synonym tframe = "(string \<times> real list) list"

record psa_net =
  psa_buses :: "psa_bus list"
  psa_generators :: "psa_generator list"
  psa_lines :: "psa_line list"
  psa_transformers :: "psa_transformer list"
  psa_loads :: "psa_load list"
  psa_storage_units :: "psa_storage_unit list"
  psa_snapshots :: "timestamp list"
  generators_t_p_set :: tframe
  generators_t_q_set :: tframe
  loads_t_p_set :: tframe
  loads_t_q_set :: tframe
  storage_units_t_p_set :: tframe
  storage_units_t_q_set :: tframe

text \<open>
  What \<^verbatim>\<open>to_powermodels\<close> reads of \<^verbatim>\<open>edisgo_object\<close>: the network that
  \<^verbatim>\<open>to_pypsa(use_seed=True)\<close> returns, the id of the topology, and the three tables that
  \<^verbatim>\<open>electromobility.get_flexibility_bands(edisgo_obj, ["home", "work"])\<close> returns.
\<close>

record edisgo_export =
  to_pypsa :: psa_net
  topology_id :: nat
  flex_upper_power :: tframe
  flex_lower_energy :: tframe
  flex_upper_energy :: tframe

subsection \<open>Aggregation of parallel transformers\<close>

text \<open>\<^verbatim>\<open>index[:-2]\<close>: the name without its last two characters.\<close>

definition drop_last2 :: "string \<Rightarrow> string" where
  "drop_last2 name = butlast (butlast name)"

text \<open>
  \<^verbatim>\<open>df[~df.index.duplicated(keep="first")]\<close>: a row is dropped when an earlier row has
  its name.
\<close>

fun keep_first :: "string list \<Rightarrow> psa_transformer list \<Rightarrow> psa_transformer list" where
  "keep_first seen [] = []"
| "keep_first seen (t # ts) =
     (if pt_name t \<in> set seen then keep_first seen ts
      else t # keep_first (pt_name t # seen) ts)"

text \<open>
  \<^verbatim>\<open>aggregate_parallel_transformers(psa_trafos)\<close>. \<open>trafo_df\<close> holds, per pair of buses,
  what \<^verbatim>\<open>calculate_impedance_for_parallel_components\<close> makes of the columns \<open>r\<close>, \<open>x\<close>
  and \<open>s_nom\<close> of the transformers between the pair; that function is imported from
  \<^verbatim>\<open>edisgo.tools.tools\<close> and is the parameter \<open>calc\<close> here. Every name loses its last two
  characters, of rows with the same name the first is kept, and the left merge on the
  two bus columns gives every kept row the values of its pair.
\<close>

definition aggregate_parallel_transformers ::
  "((real \<times> real \<times> real) list \<Rightarrow> real \<times> real \<times> real)
   \<Rightarrow> psa_transformer list \<Rightarrow> psa_transformer list" where
  "aggregate_parallel_transformers calc psa_trafos =
     (let trafo_df =
            (\<lambda>bus0 bus1.
               calc (map (\<lambda>t. (pt_r t, pt_x t, pt_s_nom t))
                       (filter (\<lambda>t. pt_bus0 t = bus0 \<and> pt_bus1 t = bus1) psa_trafos)));
          renamed = map (\<lambda>t. t\<lparr>pt_name := drop_last2 (pt_name t)\<rparr>) psa_trafos;
          kept = keep_first [] renamed
      in map (\<lambda>t. case trafo_df (pt_bus0 t) (pt_bus1 t) of
                     (r, x, s) \<Rightarrow> t\<lparr>pt_r := r, pt_x := x, pt_s_nom := s\<rparr>)
           kept)"

text \<open>
  Modelled from the spec: \<^verbatim>\<open>calculate_impedance_for_parallel_components\<close> is not among
  the sources. The specification names the parallel impedance combination formula: the
  equivalent impedance is the inverse of the sum of the inverses of the impedances
  \<open>r + jx\<close>. In real numbers, with \<open>g\<close> and \<open>b\<close> the sums of \<open>r / (r\<^sup>2 + x\<^sup>2)\<close> and of
  \<open>x / (r\<^sup>2 + x\<^sup>2)\<close>, that is \<open>g / (g\<^sup>2 + b\<^sup>2)\<close> and \<open>b / (g\<^sup>2 + b\<^sup>2)\<close>. The ratings are
  added up, as for a station.
\<close>

definition parallel_impedance :: "(real \<times> real \<times> real) list \<Rightarrow> real \<times> real \<times> real" where
  "parallel_impedance comps =
     (let g = sum_list (map (\<lambda>(r, x, s). r / (r\<^sup>2 + x\<^sup>2)) comps);
          b = sum_list (map (\<lambda>(r, x, s). x / (r\<^sup>2 + x\<^sup>2)) comps)
      in (g / (g\<^sup>2 + b\<^sup>2), b / (g\<^sup>2 + b\<^sup>2), sum_list (map (\<lambda>(r, x, s). s) comps)))"

text \<open>One transformer of a station, named as the transformers of the grids are.\<close>

definition one_trafo :: "psa_transformer list" where
  "one_trafo =
     [\<lparr>pt_name = ''LVStation_1_transformer_1'', pt_bus0 = ''Bus_mv'', pt_bus1 = ''Bus_lv'',
       pt_r = 0.5, pt_x = 0.5, pt_s_nom = 0.63, pt_r_pu = 0, pt_x_pu = 0, pt_b_pu = 0,
       pt_g_pu = 0, pt_tap_ratio = 1, pt_phase_shift = 0\<rparr>]"

subsection \<open>The PowerModels dictionary\<close>

text \<open>
  A section of the dictionary maps the keys \<^verbatim>\<open>str(i + 1)\<close> to records. The entries of
  \<^verbatim>\<open>_init_pm\<close> that no function writes (\<^verbatim>\<open>dcline\<close>, \<^verbatim>\<open>switch\<close>, \<^verbatim>\<open>dsm\<close>, \<^verbatim>\<open>shunt\<close>,
  \<^verbatim>\<open>sourcetype\<close>, \<^verbatim>\<open>per_unit\<close>) are left out.
\<close>

record bus_rec =
  bus_index :: nat
  bus_bus_i :: nat
  bus_zone :: nat
  bus_type :: nat
  bus_vmax :: real
  bus_vmin :: real
  bus_va :: real
  bus_vm :: real
  bus_base_kv :: real

record gen_rec =
  gen_pg :: real
  gen_qg :: real
  gen_pmax :: real
  gen_pmin :: real
  gen_qmax :: real
  gen_qmin :: real
  gen_vg :: real
  gen_mbase :: real
  gen_gen_bus :: nat
  gen_gen_status :: nat
  gen_index :: nat
  gen_model :: nat
  gen_ncost :: nat
  gen_cost :: "nat list"

record branch_rec =
  br_name :: string
  br_br_r :: real
  br_br_x :: real
  br_f_bus :: nat
  br_t_bus :: nat
  br_g_to :: real
  br_g_fr :: real
  br_b_to :: real
  br_b_fr :: real
  br_shift :: real
  br_br_status :: real
  br_rate_a :: real
  br_rate_b :: real
  br_rate_c :: real
  br_angmin :: real
  br_angmax :: real
  br_transformer :: bool
  br_tap :: real
  br_index :: nat

record load_rec =
  load_pd :: real
  load_qd :: real
  load_load_bus :: nat
  load_status :: bool
  load_index :: nat

record storage_rec =
  st_x :: real
  st_r :: real
  st_ps :: real
  st_qs :: real
  st_pmax :: real
  st_pmin :: real
  st_p_loss :: real
  st_qmax :: real
  st_qmin :: real
  st_q_loss :: real
  st_energy :: real
  st_energy_rating :: real
  st_thermal_rating :: real
  st_charge_rating :: real
  st_discharge_rating :: real
  st_charge_efficiency :: real
  st_discharge_efficiency :: real
  st_storage_bus :: nat
  st_status :: bool
  st_index :: nat

record emob_rec =
  emob_pd :: real
  emob_qd :: real
  emob_p_max :: real
  emob_e_min :: real
  emob_e_max :: real
  emob_cp_bus :: nat
  emob_index :: nat

record hp_rec =
  hp_pd :: real
  hp_qd :: real
  hp_p_max :: real
  hp_cop :: real
  hp_hp_bus :: nat
  hp_index :: nat

text \<open>
  An entry of a time series section: \<^verbatim>\<open>{"pg", "qg"}\<close>, \<^verbatim>\<open>{"pd", "qd"}\<close>,
  \<^verbatim>\<open>{"ps", "qs"}\<close> or \<^verbatim>\<open>{"p_max", "e_min", "e_max"}\<close>.
\<close>

datatype ts_entry =
    TsGen "real list" "real list"
  | TsLoad "real list" "real list"
  | TsStorage "real list" "real list"
  | TsEmob "real list" "real list" "real list"

type_synonym ts_dict = "(string \<times> ts_entry) list"

record time_series_rec =
  ts_gen :: ts_dict
  ts_load :: ts_dict
  ts_storage :: ts_dict
  ts_electromobility :: ts_dict
  ts_heatpumps :: ts_dict
  ts_num_steps :: nat

record pm =
  pm_gen :: "(string \<times> gen_rec) list"
  pm_branch :: "(string \<times> branch_rec) list"
  pm_bus :: "(string \<times> bus_rec) list"
  pm_load :: "(string \<times> load_rec) list"
  pm_storage :: "(string \<times> storage_rec) list"
  pm_electromobility :: "(string \<times> emob_rec) list"
  pm_heatpumps :: "(string \<times> hp_rec) list"
  pm_baseMVA :: nat
  pm_source_version :: nat
  pm_time_elapsed :: nat
  pm_name :: string
  pm_time_series :: "time_series_rec option"

text \<open>\<^verbatim>\<open>_init_pm()\<close>; \<^verbatim>\<open>time_series\<close> starts as an empty dictionary, here \<open>None\<close>.\<close>

definition init_pm :: pm where
  "init_pm =
     \<lparr>pm_gen = [], pm_branch = [], pm_bus = [], pm_load = [], pm_storage = [],
      pm_electromobility = [], pm_heatpumps = [], pm_baseMVA = 1, pm_source_version = 2,
      pm_time_elapsed = 0, pm_name = ''name'', pm_time_series = None\<rparr>"

subsection \<open>Keys, positions and loops\<close>

text \<open>\<^verbatim>\<open>str(n)\<close> for an integer that is not negative: its decimal digits.\<close>

fun str_nat :: "nat \<Rightarrow> string" where
  "str_nat n =
     (if n < 10 then [''0123456789'' ! n]
      else str_nat (n div 10) @ [''0123456789'' ! (n mod 10)])"

declare str_nat.simps [simp del]

text \<open>\<^verbatim>\<open>name.startswith(prefix)\<close>.\<close>

definition startswith :: "string \<Rightarrow> string \<Rightarrow> bool" where
  "startswith name pre = (take (length pre) name = pre)"

text \<open>The position of the first occurrence of a value in a list.\<close>

fun first_pos :: "'a \<Rightarrow> 'a list \<Rightarrow> nat option" where
  "first_pos x [] = None"
| "first_pos x (y # ys) = (if y = x then Some 0 else map_option Suc (first_pos x ys))"

text \<open>\<^verbatim>\<open>int(key)\<close>: the number that a string of decimal digits writes.\<close>

definition digit_val :: "char \<Rightarrow> nat" where
  "digit_val c = (case first_pos c ''0123456789'' of None \<Rightarrow> 0 | Some d \<Rightarrow> d)"

definition nat_of_str :: "string \<Rightarrow> nat" where
  "nat_of_str s = fold (\<lambda>c n. 10 * n + digit_val c) s 0"

text \<open>A loop whose body may raise: it stops at the first error.\<close>

fun for_each :: "('a \<Rightarrow> error + 'b) \<Rightarrow> 'a list \<Rightarrow> error + 'b list" where
  "for_each f [] = Inr []"
| "for_each f (x # xs) =
     (case f x of
        Inl e \<Rightarrow> Inl e
      | Inr y \<Rightarrow> (case for_each f xs of Inl e \<Rightarrow> Inl e | Inr ys \<Rightarrow> Inr (y # ys)))"

text \<open>\<^verbatim>\<open>d[key] = value\<close> for a list of keys and values, in their order.\<close>

definition assign_all :: "('k \<times> 'v) list \<Rightarrow> ('k \<times> 'v) list \<Rightarrow> ('k \<times> 'v) list" where
  "assign_all d kvs = fold (\<lambda>(k, v) d. AList.update k v d) kvs d"

text \<open>A positional read \<^verbatim>\<open>column[i]\<close>.\<close>

definition nth_err :: "'a list \<Rightarrow> nat \<Rightarrow> error + 'a" where
  "nth_err xs i = (if i < length xs then Inr (xs ! i) else Inl IndexError)"

text \<open>
  \<^verbatim>\<open>_mapping(psa_net, name, kind="bus")\<close>: the position of \<open>name\<close>, counted from 1, in the
  table of its kind. For the kinds \<^verbatim>\<open>"load"\<close> and \<^verbatim>\<open>"emob"\<close> the table is the loads whose
  name starts with \<^verbatim>\<open>Load\<close> and with \<^verbatim>\<open>Charging\<close>. For any other kind the code logs a
  warning and then reads \<^verbatim>\<open>df\<close>, which it never bound. A name that the table does not
  hold gives an empty selection, whose \<^verbatim>\<open>index[0]\<close> raises.
\<close>

definition mapping :: "psa_net \<Rightarrow> string \<Rightarrow> string \<Rightarrow> error + nat" where
  "mapping psa_net name kind =
     (case (if kind = ''bus'' then Some (map pb_name (psa_buses psa_net))
            else if kind = ''gen'' then Some (map pg_name (psa_generators psa_net))
            else if kind = ''storage'' then Some (map psu_name (psa_storage_units psa_net))
            else if kind = ''load''
              then Some (filter (\<lambda>n. startswith n ''Load'') (map pld_name (psa_loads psa_net)))
            else if kind = ''emob''
              then Some (filter (\<lambda>n. startswith n ''Charging'')
                           (map pld_name (psa_loads psa_net)))
            else None) of
        None \<Rightarrow> Inl UnboundLocalError
      | Some df \<Rightarrow>
          (case first_pos name df of None \<Rightarrow> Inl IndexError | Some i \<Rightarrow> Inr (i + 1)))"

subsection \<open>The component sections\<close>

text \<open>
  \<^verbatim>\<open>_build_bus(psa_net, pm)\<close>. The bus types are computed for all buses before the
  loop; \<^verbatim>\<open>bus_types.index\<close> raises for a control that is not in the list.
\<close>

definition bus_type_int :: "string \<Rightarrow> error + nat" where
  "bus_type_int b_type =
     (case first_pos b_type [''PQ'', ''PV'', ''Slack'', ''None''] of
        None \<Rightarrow> Inl NotInList
      | Some i \<Rightarrow> Inr (i + 1))"

definition build_bus :: "psa_net \<Rightarrow> pm \<Rightarrow> error + pm" where
  "build_bus psa_net pm =
     (case for_each (\<lambda>b. bus_type_int (pb_control b)) (psa_buses psa_net) of
        Inl e \<Rightarrow> Inl e
      | Inr bus_types_int \<Rightarrow>
          Inr (pm\<lparr>pm_bus := assign_all (pm_bus pm)
                 (map (\<lambda>(bus_i, b, ty).
                         (str_nat (bus_i + 1),
                          \<lparr>bus_index = bus_i + 1, bus_bus_i = bus_i + 1, bus_zone = 1,
                           bus_type = ty, bus_vmax = min (pb_v_mag_pu_max b) 1.05,
                           bus_vmin = max (pb_v_mag_pu_min b) 0.985, bus_va = 0,
                           bus_vm = pb_v_mag_pu_set b, bus_base_kv = pb_v_nom b\<rparr>))
                    (enumerate 0 (zip (psa_buses psa_net) bus_types_int)))\<rparr>))"

text \<open>
  \<^verbatim>\<open>_build_gen(psa_net, pm)\<close>: the bus of the generator \<^verbatim>\<open>Generator_slack\<close> gets the type
  3, then one record per generator.
\<close>

definition build_gen :: "psa_net \<Rightarrow> pm \<Rightarrow> error + pm" where
  "build_gen psa_net pm =
     (case filter (\<lambda>g. pg_name g = ''Generator_slack'') (psa_generators psa_net) of
        [] \<Rightarrow> Inl IndexError
      | g # _ \<Rightarrow>
     (case mapping psa_net (pg_bus g) ''bus'' of
        Inl e \<Rightarrow> Inl e
      | Inr slack_i \<Rightarrow>
     (case map_of (pm_bus pm) (str_nat slack_i) of
        None \<Rightarrow> Inl KeyError
      | Some slack_bus \<Rightarrow>
     (case for_each
             (\<lambda>(gen_i, g).
                case mapping psa_net (pg_bus g) ''bus'' of
                  Inl e \<Rightarrow> Inl e
                | Inr idx_bus \<Rightarrow>
                    Inr (str_nat (gen_i + 1),
                         \<lparr>gen_pg = pg_p_set g, gen_qg = pg_q_set g, gen_pmax = pg_p_max_pu g,
                          gen_pmin = pg_p_min_pu g, gen_qmax = 1, gen_qmin = 0, gen_vg = 1,
                          gen_mbase = pg_p_nom g, gen_gen_bus = idx_bus, gen_gen_status = 1,
                          gen_index = gen_i + 1, gen_model = 2, gen_ncost = 3,
                          gen_cost = [120, 20, 0]\<rparr>))
             (enumerate 0 (psa_generators psa_net)) of
        Inl e \<Rightarrow> Inl e
      | Inr recs \<Rightarrow>
          Inr (pm\<lparr>pm_bus := AList.update (str_nat slack_i) (slack_bus\<lparr>bus_type := 3\<rparr>)
                               (pm_bus pm),
                  pm_gen := assign_all (pm_gen pm) recs\<rparr>)))))"

text \<open>
  A row of \<^verbatim>\<open>branches = pd.concat([psa_net.lines, psa_net.transformers])\<close>. The lines
  have no tap ratio and no phase shift; the concatenation fills those cells with NaN,
  here \<open>None\<close>.
\<close>

record branch_row =
  bw_name :: string
  bw_r_pu :: real
  bw_x_pu :: real
  bw_b_pu :: real
  bw_g_pu :: real
  bw_s_nom :: real
  bw_tap_ratio :: "real option"
  bw_phase_shift :: "real option"

definition line_row_of :: "psa_line \<Rightarrow> branch_row" where
  "line_row_of l =
     \<lparr>bw_name = pl_name l, bw_r_pu = pl_r_pu l, bw_x_pu = pl_x_pu l, bw_b_pu = pl_b_pu l,
      bw_g_pu = pl_g_pu l, bw_s_nom = pl_s_nom l, bw_tap_ratio = None,
      bw_phase_shift = None\<rparr>"

definition trafo_row_of :: "psa_transformer \<Rightarrow> branch_row" where
  "trafo_row_of t =
     \<lparr>bw_name = pt_name t, bw_r_pu = pt_r_pu t, bw_x_pu = pt_x_pu t, bw_b_pu = pt_b_pu t,
      bw_g_pu = pt_g_pu t, bw_s_nom = pt_s_nom t, bw_tap_ratio = Some (pt_tap_ratio t),
      bw_phase_shift = Some (pt_phase_shift t)\<rparr>"

text \<open>
  \<^verbatim>\<open>_build_branch(psa_net, pm)\<close>. The columns are those of \<open>branches\<close>, lines and
  transformers; the loop runs over \<^verbatim>\<open>np.arange(len(psa_net.lines.index))\<close> and reads the
  columns by position. \<open>transformer\<close> is \<^verbatim>\<open>~branches.tap_ratio.isna()\<close>, \<open>tap\<close> and
  \<open>shift\<close> are the tap ratio and the phase shift with 1 and 0 for NaN.
\<close>

definition build_branch :: "psa_net \<Rightarrow> pm \<Rightarrow> error + pm" where
  "build_branch psa_net pm =
     (let branches = map line_row_of (psa_lines psa_net)
                     @ map trafo_row_of (psa_transformers psa_net)
      in case for_each
                (\<lambda>(branch_i, l).
                   case mapping psa_net (pl_bus0 l) ''bus'' of
                     Inl e \<Rightarrow> Inl e
                   | Inr idx_f_bus \<Rightarrow>
                  (case mapping psa_net (pl_bus1 l) ''bus'' of
                     Inl e \<Rightarrow> Inl e
                   | Inr idx_t_bus \<Rightarrow>
                  (case nth_err branches branch_i of
                     Inl e \<Rightarrow> Inl e
                   | Inr row \<Rightarrow>
                       Inr (str_nat (branch_i + 1),
                            \<lparr>br_name = bw_name row, br_br_r = bw_r_pu row,
                             br_br_x = bw_x_pu row, br_f_bus = idx_f_bus,
                             br_t_bus = idx_t_bus, br_g_to = bw_g_pu row / 2,
                             br_g_fr = bw_g_pu row / 2, br_b_to = bw_b_pu row / 2,
                             br_b_fr = bw_b_pu row / 2,
                             br_shift = (case bw_phase_shift row of None \<Rightarrow> 0 | Some a \<Rightarrow> a),
                             br_br_status = 1, br_rate_a = bw_s_nom row, br_rate_b = 250,
                             br_rate_c = 250, br_angmin = - pi / 6, br_angmax = pi / 6,
                             br_transformer = (bw_tap_ratio row \<noteq> None),
                             br_tap = (case bw_tap_ratio row of None \<Rightarrow> 1 | Some a \<Rightarrow> a),
                             br_index = branch_i + 1\<rparr>))))
                (enumerate 0 (psa_lines psa_net)) of
           Inl e \<Rightarrow> Inl e
         | Inr recs \<Rightarrow> Inr (pm\<lparr>pm_branch := assign_all (pm_branch pm) recs\<rparr>))"

text \<open>\<^verbatim>\<open>_build_storage(psa_net, pm)\<close>.\<close>

definition build_storage :: "psa_net \<Rightarrow> pm \<Rightarrow> error + pm" where
  "build_storage psa_net pm =
     (case for_each
             (\<lambda>(stor_i, u).
                case mapping psa_net (psu_bus u) ''bus'' of
                  Inl e \<Rightarrow> Inl e
                | Inr idx_bus \<Rightarrow>
                    Inr (str_nat (stor_i + 1),
                         \<lparr>st_x = 0, st_r = 0, st_ps = psu_p_set u, st_qs = psu_q_set u,
                          st_pmax = psu_p_max_pu u, st_pmin = psu_p_min_pu u, st_p_loss = 0,
                          st_qmax = 1, st_qmin = 0, st_q_loss = 0,
                          st_energy = psu_state_of_charge_initial u, st_energy_rating = 0,
                          st_thermal_rating = 0, st_charge_rating = 0,
                          st_discharge_rating = 0, st_charge_efficiency = 1,
                          st_discharge_efficiency = 1, st_storage_bus = idx_bus,
                          st_status = True, st_index = stor_i + 1\<rparr>))
             (enumerate 0 (psa_storage_units psa_net)) of
        Inl e \<Rightarrow> Inl e
      | Inr recs \<Rightarrow> Inr (pm\<lparr>pm_storage := assign_all (pm_storage pm) recs\<rparr>))"

text \<open>
  \<^verbatim>\<open>loads.drop(labels)\<close> and \<^verbatim>\<open>loads.loc[labels]\<close>: both raise \<^verbatim>\<open>KeyError\<close> for a label
  that is no load.
\<close>

definition drop_loads :: "psa_load list \<Rightarrow> string list \<Rightarrow> error + psa_load list" where
  "drop_loads loads labels =
     (if list_all (\<lambda>n. n \<in> set (map pld_name loads)) labels
      then Inr (filter (\<lambda>l. pld_name l \<notin> set labels) loads)
      else Inl KeyError)"

definition loc_loads :: "psa_load list \<Rightarrow> string list \<Rightarrow> error + psa_load list" where
  "loc_loads loads labels =
     (if list_all (\<lambda>n. n \<in> set (map pld_name loads)) labels
      then Inr (concat (map (\<lambda>n. filter (\<lambda>l. pld_name l = n) loads) labels))
      else Inl KeyError)"

text \<open>
  \<^verbatim>\<open>_build_load(psa_net, pm, flexible_cps, flexible_hps)\<close>: the loads without the
  flexible charging points and heat pumps, keyed by their position in what is left.
\<close>

definition build_load :: "psa_net \<Rightarrow> pm \<Rightarrow> string list \<Rightarrow> string list \<Rightarrow> error + pm" where
  "build_load psa_net pm flexible_cps flexible_hps =
     (case drop_loads (psa_loads psa_net) flexible_cps of
        Inl e \<Rightarrow> Inl e
      | Inr without_cps \<Rightarrow>
     (case drop_loads without_cps flexible_hps of
        Inl e \<Rightarrow> Inl e
      | Inr loads_df \<Rightarrow>
     (case for_each
             (\<lambda>(load_i, l).
                case mapping psa_net (pld_bus l) ''bus'' of
                  Inl e \<Rightarrow> Inl e
                | Inr idx_bus \<Rightarrow>
                    Inr (str_nat (load_i + 1),
                         \<lparr>load_pd = pld_p_set l, load_qd = pld_q_set l,
                          load_load_bus = idx_bus, load_status = True,
                          load_index = load_i + 1\<rparr>))
             (enumerate 0 loads_df) of
        Inl e \<Rightarrow> Inl e
      | Inr recs \<Rightarrow> Inr (pm\<lparr>pm_load := assign_all (pm_load pm) recs\<rparr>))))"

text \<open>\<^verbatim>\<open>_build_electromobility(psa_net, pm, flexible_cps)\<close>.\<close>

definition build_electromobility :: "psa_net \<Rightarrow> pm \<Rightarrow> string list \<Rightarrow> error + pm" where
  "build_electromobility psa_net pm flexible_cps =
     (if length flexible_cps = 0 then Inr pm
      else
     (case loc_loads (psa_loads psa_net) flexible_cps of
        Inl e \<Rightarrow> Inl e
      | Inr emob_df \<Rightarrow>
     (case for_each
             (\<lambda>(cp_i, l).
                case mapping psa_net (pld_bus l) ''bus'' of
                  Inl e \<Rightarrow> Inl e
                | Inr idx_bus \<Rightarrow>
                    Inr (str_nat (cp_i + 1),
                         \<lparr>emob_pd = pld_p_set l, emob_qd = pld_q_set l, emob_p_max = 1,
                          emob_e_min = 0, emob_e_max = 1, emob_cp_bus = idx_bus,
                          emob_index = cp_i + 1\<rparr>))
             (enumerate 0 emob_df) of
        Inl e \<Rightarrow> Inl e
      | Inr recs \<Rightarrow>
          Inr (pm\<lparr>pm_electromobility := assign_all (pm_electromobility pm) recs\<rparr>))))"

text \<open>\<^verbatim>\<open>_build_heatpumps(psa_net, pm, flexible_hps)\<close>.\<close>

definition build_heatpumps :: "psa_net \<Rightarrow> pm \<Rightarrow> string list \<Rightarrow> error + pm" where
  "build_heatpumps psa_net pm flexible_hps =
     (if length flexible_hps = 0 then Inr pm
      else
     (case loc_loads (psa_loads psa_net) flexible_hps of
        Inl e \<Rightarrow> Inl e
      | Inr heat_df \<Rightarrow>
     (case for_each
             (\<lambda>(hp_i, l).
                case mapping psa_net (pld_bus l) ''bus'' of
                  Inl e \<Rightarrow> Inl e
                | Inr idx_bus \<Rightarrow>
                    Inr (str_nat (hp_i + 1),
                         \<lparr>hp_pd = pld_p_set l, hp_qd = pld_q_set l, hp_p_max = pld_p_max l,
                          hp_cop = pld_cop l, hp_hp_bus = idx_bus, hp_index = hp_i + 1\<rparr>))
             (enumerate 0 heat_df) of
        Inl e \<Rightarrow> Inl e
      | Inr recs \<Rightarrow> Inr (pm\<lparr>pm_heatpumps := assign_all (pm_heatpumps pm) recs\<rparr>))))"

subsection \<open>The time series and the whole export\<close>

text \<open>\<^verbatim>\<open>table.loc[:, labels]\<close> on a time series table.\<close>

definition loc_tcols :: "tframe \<Rightarrow> string list \<Rightarrow> error + tframe" where
  "loc_tcols df labels =
     (if list_all (\<lambda>n. n \<in> set (map fst df)) labels
      then Inr (concat (map (\<lambda>n. filter (\<lambda>(c, vs). c = n) df) labels))
      else Inl KeyError)"

text \<open>
  The loop \<^verbatim>\<open>for comp in p_set.columns\<close> of \<^verbatim>\<open>_build_component_timeseries\<close>. The body
  \<open>f\<close> raises, or gives the key and the entry to store in \<^verbatim>\<open>pm_comp\<close>, or stores
  nothing. \<^verbatim>\<open>pm_comp\<close> is \<open>None\<close> as long as no assignment has bound it.
\<close>

fun ts_loop ::
  "(string \<times> real list \<Rightarrow> error + (string \<times> ts_entry) option)
   \<Rightarrow> tframe \<Rightarrow> ts_dict option \<Rightarrow> error + ts_dict option" where
  "ts_loop f [] pm_comp = Inr pm_comp"
| "ts_loop f (col # cols) pm_comp =
     (case f col of
        Inl e \<Rightarrow> Inl e
      | Inr None \<Rightarrow> ts_loop f cols pm_comp
      | Inr (Some (k, v)) \<Rightarrow>
          (case pm_comp of
             None \<Rightarrow> Inl UnboundLocalError
           | Some d \<Rightarrow> ts_loop f cols (Some (AList.update k v d))))"

text \<open>
  \<^verbatim>\<open>_build_component_timeseries(psa_net, kind, edisgo_obj, flexible_cps, flexible_hps)\<close>.
  The first part binds \<^verbatim>\<open>pm_comp\<close>, \<^verbatim>\<open>p_set\<close> and \<^verbatim>\<open>q_set\<close> by kind. For \<^verbatim>\<open>"emob"\<close>
  without flexible charging points only \<^verbatim>\<open>p_set\<close> is bound, to an empty table; for a
  kind that has no branch (or \<^verbatim>\<open>"dsm"\<close>, whose branch only prints) \<^verbatim>\<open>p_set\<close> is unbound
  when the loop reads it. The loop calls \<^verbatim>\<open>_mapping\<close> for every column and stores the
  entry of the kind; for \<^verbatim>\<open>"heatpumps"\<close> it stores nothing. The function ends with
  \<^verbatim>\<open>return pm_comp\<close>.
\<close>

definition build_component_timeseries ::
  "psa_net \<Rightarrow> string \<Rightarrow> edisgo_export \<Rightarrow> string list \<Rightarrow> string list \<Rightarrow> error + ts_dict" where
  "build_component_timeseries psa_net kind edisgo_obj flexible_cps flexible_hps =
     (case (if kind = ''gen''
            then Inr (Some [], generators_t_p_set psa_net, generators_t_q_set psa_net)
            else if kind = ''load''
            then Inr (Some [],
                      filter (\<lambda>(c, vs). startswith c ''Load'') (loads_t_p_set psa_net),
                      filter (\<lambda>(c, vs). startswith c ''Load'') (loads_t_q_set psa_net))
            else if kind = ''storage''
            then Inr (Some [], storage_units_t_p_set psa_net, storage_units_t_q_set psa_net)
            else if kind = ''emob''
            then (if length flexible_cps = 0 then Inr (None, [], [])
                  else (case loc_tcols (loads_t_p_set psa_net) flexible_cps of
                          Inl e \<Rightarrow> Inl e
                        | Inr p_set \<Rightarrow> Inr (Some [], p_set, [])))
            else if kind = ''heatpumps''
            then (if length flexible_hps = 0 then Inr (Some [], [], [])
                  else (case loc_tcols (loads_t_p_set psa_net) flexible_hps of
                          Inl e \<Rightarrow> Inl e
                        | Inr p_set \<Rightarrow> Inr (Some [], p_set, [])))
            else Inl UnboundLocalError) of
        Inl e \<Rightarrow> Inl e
      | Inr (pm_comp, p_set, q_set) \<Rightarrow>
     (case ts_loop
             (\<lambda>(comp, p_vals).
                case mapping psa_net comp kind of
                  Inl e \<Rightarrow> Inl e
                | Inr comp_i \<Rightarrow>
                    if kind = ''gen''
                    then (case lookup q_set comp of
                            Inl e \<Rightarrow> Inl e
                          | Inr q_vals \<Rightarrow> Inr (Some (str_nat comp_i, TsGen p_vals q_vals)))
                    else if kind = ''load''
                    then (case lookup q_set comp of
                            Inl e \<Rightarrow> Inl e
                          | Inr q_vals \<Rightarrow> Inr (Some (str_nat comp_i, TsLoad p_vals q_vals)))
                    else if kind = ''storage''
                    then (case lookup q_set comp of
                            Inl e \<Rightarrow> Inl e
                          | Inr q_vals \<Rightarrow> Inr (Some (str_nat comp_i, TsStorage p_vals q_vals)))
                    else if kind = ''emob''
                    then (if length flexible_cps > 0
                          then (case lookup (flex_upper_power edisgo_obj) comp of
                                  Inl e \<Rightarrow> Inl e
                                | Inr p_max \<Rightarrow>
                               (case lookup (flex_lower_energy edisgo_obj) comp of
                                  Inl e \<Rightarrow> Inl e
                                | Inr e_min \<Rightarrow>
                               (case lookup (flex_upper_energy edisgo_obj) comp of
                                  Inl e \<Rightarrow> Inl e
                                | Inr e_max \<Rightarrow>
                                    Inr (Some (str_nat comp_i, TsEmob p_max e_min e_max)))))
                          else Inr None)
                    else Inr None)
             p_set pm_comp of
        Inl e \<Rightarrow> Inl e
      | Inr None \<Rightarrow> Inl UnboundLocalError
      | Inr (Some d) \<Rightarrow> Inr d))"

text \<open>
  \<^verbatim>\<open>_build_timeseries(psa_net, pm, edisgo_obj, flexible_cps, flexible_hps)\<close>: the five
  sections in the order of the dictionary display, and the number of snapshots.
\<close>

definition build_timeseries ::
  "psa_net \<Rightarrow> pm \<Rightarrow> edisgo_export \<Rightarrow> string list \<Rightarrow> string list \<Rightarrow> error + pm" where
  "build_timeseries psa_net pm edisgo_obj flexible_cps flexible_hps =
     (case build_component_timeseries psa_net ''gen'' edisgo_obj flexible_cps flexible_hps of
        Inl e \<Rightarrow> Inl e
      | Inr gen \<Rightarrow>
     (case build_component_timeseries psa_net ''load'' edisgo_obj flexible_cps flexible_hps of
        Inl e \<Rightarrow> Inl e
      | Inr load \<Rightarrow>
     (case build_component_timeseries psa_net ''storage'' edisgo_obj flexible_cps
             flexible_hps of
        Inl e \<Rightarrow> Inl e
      | Inr storage \<Rightarrow>
     (case build_component_timeseries psa_net ''emob'' edisgo_obj flexible_cps flexible_hps of
        Inl e \<Rightarrow> Inl e
      | Inr electromobility \<Rightarrow>
     (case build_component_timeseries psa_net ''heatpumps'' edisgo_obj flexible_cps
             flexible_hps of
        Inl e \<Rightarrow> Inl e
      | Inr heatpumps \<Rightarrow>
          Inr (pm\<lparr>pm_time_series := Some
                 \<lparr>ts_gen = gen, ts_load = load, ts_storage = storage,
                  ts_electromobility = electromobility, ts_heatpumps = heatpumps,
                  ts_num_steps = length (psa_snapshots psa_net)\<rparr>\<rparr>))))))"

text \<open>
  \<^verbatim>\<open>to_powermodels(edisgo_object, flexible_cps, flexible_hps)\<close>. The two functions of
  other packages are parameters: \<open>calc\<close> is
  \<^verbatim>\<open>calculate_impedance_for_parallel_components\<close> and \<open>calculate_dependent_values\<close> is
  \<^verbatim>\<open>pypsa.pf.calculate_dependent_values\<close>, which fills in the per-unit columns.
\<close>

definition to_powermodels ::
  "(psa_net \<Rightarrow> psa_net) \<Rightarrow> ((real \<times> real \<times> real) list \<Rightarrow> real \<times> real \<times> real)
   \<Rightarrow> edisgo_export \<Rightarrow> string list \<Rightarrow> string list \<Rightarrow> error + pm" where
  "to_powermodels calculate_dependent_values calc edisgo_object flexible_cps flexible_hps =
     (let psa_net = to_pypsa edisgo_object;
          psa_net = psa_net\<lparr>psa_transformers :=
                      aggregate_parallel_transformers calc (psa_transformers psa_net)\<rparr>;
          psa_net = calculate_dependent_values psa_net;
          pm = init_pm;
          timesteps = length (psa_snapshots psa_net);
          pm = pm\<lparr>pm_name := ''ding0_'' @ str_nat (topology_id edisgo_object) @ ''_t_''
                              @ str_nat timesteps,
                  pm_time_elapsed := 0, pm_baseMVA := 1, pm_source_version := 2\<rparr>
      in case build_bus psa_net pm of Inl e \<Rightarrow> Inl e | Inr pm \<Rightarrow>
        (case build_gen psa_net pm of Inl e \<Rightarrow> Inl e | Inr pm \<Rightarrow>
        (case build_branch psa_net pm of Inl e \<Rightarrow> Inl e | Inr pm \<Rightarrow>
        (case build_storage psa_net pm of Inl e \<Rightarrow> Inl e | Inr pm \<Rightarrow>
        (case build_load psa_net pm flexible_cps flexible_hps of Inl e \<Rightarrow> Inl e | Inr pm \<Rightarrow>
        (case build_electromobility psa_net pm flexible_cps of Inl e \<Rightarrow> Inl e | Inr pm \<Rightarrow>
        (case build_heatpumps psa_net pm flexible_hps of Inl e \<Rightarrow> Inl e | Inr pm \<Rightarrow>
           build_timeseries psa_net pm edisgo_object flexible_cps flexible_hps)))))))"

text \<open>
  A network of two buses, the slack generator, one line, one transformer and three
  loads: a public charging point, which is not flexible, a household load and a home
  charging point, which is flexible. Two snapshots.
\<close>

definition export_net :: psa_net where
  "export_net =
     \<lparr>psa_buses =
        [\<lparr>pb_name = ''Bus_1'', pb_control = ''Slack'', pb_v_mag_pu_max = 1.1,
          pb_v_mag_pu_min = 0.9, pb_v_mag_pu_set = 1, pb_v_nom = 20\<rparr>,
         \<lparr>pb_name = ''Bus_2'', pb_control = ''PQ'', pb_v_mag_pu_max = 1.1,
          pb_v_mag_pu_min = 0.9, pb_v_mag_pu_set = 1, pb_v_nom = 20\<rparr>],
      psa_generators =
        [\<lparr>pg_name = ''Generator_slack'', pg_bus = ''Bus_1'', pg_p_set = 0, pg_q_set = 0,
          pg_p_max_pu = 1, pg_p_min_pu = 0, pg_p_nom = 1\<rparr>],
      psa_lines =
        [\<lparr>pl_name = ''Line_1'', pl_bus0 = ''Bus_1'', pl_bus1 = ''Bus_2'', pl_r_pu = 0.25,
          pl_x_pu = 0.5, pl_b_pu = 0, pl_g_pu = 0, pl_s_nom = 1\<rparr>],
      psa_transformers = one_trafo,
      psa_loads =
        [\<lparr>pld_name = ''Charging_Point_public_1'', pld_bus = ''Bus_2'', pld_p_set = 0.5,
          pld_q_set = 0, pld_cop = 0, pld_p_max = 0\<rparr>,
         \<lparr>pld_name = ''Load_1'', pld_bus = ''Bus_2'', pld_p_set = 0.25,
          pld_q_set = 0, pld_cop = 0, pld_p_max = 0\<rparr>,
         \<lparr>pld_name = ''Charging_Point_home_1'', pld_bus = ''Bus_2'', pld_p_set = 0.125,
          pld_q_set = 0, pld_cop = 0, pld_p_max = 0\<rparr>],
      psa_storage_units = [],
      psa_snapshots = [0, 1],
      generators_t_p_set = [(''Generator_slack'', [0, 0])],
      generators_t_q_set = [(''Generator_slack'', [0, 0])],
      loads_t_p_set =
        [(''Charging_Point_public_1'', [0.5, 0.5]), (''Load_1'', [0.25, 0.75]),
         (''Charging_Point_home_1'', [0.125, 0])],
      loads_t_q_set =
        [(''Charging_Point_public_1'', [0, 0]), (''Load_1'', [0, 0]),
         (''Charging_Point_home_1'', [0, 0])],
      storage_units_t_p_set = [],
      storage_units_t_q_set = []\<rparr>"

definition export_scenario :: edisgo_export where
  "export_scenario =
     \<lparr>to_pypsa = export_net, topology_id = 1,
      flex_upper_power = [(''Charging_Point_home_1'', [1, 1])],
      flex_lower_energy = [(''Charging_Point_home_1'', [0, 0])],
      flex_upper_energy = [(''Charging_Point_home_1'', [0, 1])]\<rparr>"

section \<open>Properties\<close>

lemma df_any_iff:
  "df_any P df \<longleftrightarrow> (\<exists>c \<in> set (df_columns df). \<exists>t \<in> set (df_index df). P (df_at df t c))"
  by (simp add: df_any_def list_ex_iff)

text \<open>
  C5. The strict-band check fails with \<open>FatalConstraintViolation\<close> exactly when some bus
  voltage at some time step of the result set is above 1.1 or below 0.9 (both strictly);
  otherwise it returns normally, and it returns no state: its only result is the unit
  value.
\<close>

theorem check_ten_percent_raises_iff:
  "check_ten_percent_voltage_deviation edisgo_obj =
     (if (\<exists>b \<in> set (df_columns (v_res (results edisgo_obj))).
          \<exists>t \<in> set (df_index (v_res (results edisgo_obj))).
            df_at (v_res (results edisgo_obj)) t b > 1.1
            \<or> df_at (v_res (results edisgo_obj)) t b < 0.9)
      then Inl FatalConstraintViolation else Inr ())"
  unfolding check_ten_percent_voltage_deviation_def Let_def df_any_iff by auto

theorem check_ten_percent_raises_iff_witness:
  "check_ten_percent_voltage_deviation band_scenario = Inl FatalConstraintViolation"
proof -
  have "\<exists>b \<in> set (df_columns (v_res (results band_scenario))).
          \<exists>t \<in> set (df_index (v_res (results band_scenario))).
            df_at (v_res (results band_scenario)) t b > 1.1
            \<or> df_at (v_res (results band_scenario)) t b < 0.9"
    by (simp add: band_scenario_def empty_edisgo_def)
  then show ?thesis
    using check_ten_percent_raises_iff [of band_scenario] by simp
qed

subsection \<open>Worst case of under- and overvoltage\<close>

lemma loc_list_length: "loc_list m ks = Inr vs \<Longrightarrow> length vs = length ks"
  by (induction ks arbitrary: vs) (auto split: sum.splits)

lemma row_max_Max: "xs \<noteq> [] \<Longrightarrow> row_max xs = Some (Max (set xs))"
proof (cases xs)
  case Nil
  assume "xs \<noteq> []"
  with Nil show ?thesis by simp
next
  case (Cons a list)
  have "Max (set (a # list)) = fold max list a" by (rule Max.set_eq_fold)
  with Cons show ?thesis by simp
qed

lemma nan_gt_row_max:
  "xs \<noteq> [] \<Longrightarrow> ys \<noteq> [] \<Longrightarrow>
   nan_gt (row_max xs) (row_max ys) \<longleftrightarrow> Max (set xs) > Max (set ys)"
  by (simp add: row_max_Max)

lemma list_ex_zip_row:
  "list_ex P (zip (map g tix) lims) \<longleftrightarrow> (\<exists>(t, u) \<in> set (zip tix lims). P (g t, u))"
  by (force simp: list_ex_iff zip_map1)

lemma fst_set_rows: "fst ` set (map (\<lambda>c. (c, f c)) xs) = set xs"
  by force

lemma map_fst_rows: "map fst (map (\<lambda>c. (c, f c)) xs) = xs"
  by (induction xs) simp_all

text \<open>
  C1. Take a bus of the list checked (a list of distinct names, all columns of the
  voltage table, with limits given for every time step) that is above the allowed upper
  limit at some time step and below the allowed lower limit at some time step. Then
  \<^verbatim>\<open>voltage_diff\<close> returns, and the bus is in exactly one of the two tables it returns:
  in the overvoltage table when its largest deviation above the upper limit over all
  time steps is the greater one, in the undervoltage table when its largest deviation
  below the lower limit is the greater one (when neither is greater, the comparison of
  the code, a strict one, leaves it in the undervoltage table). No bus is in both
  tables: the row labels of the two tables together are distinct.
\<close>

theorem voltage_diff_worst_case:
  fixes edisgo_obj :: edisgo
  defines "v \<equiv> v_res (results edisgo_obj)"
  assumes cols: "list_all (\<lambda>b. b \<in> set (df_columns v)) buses"
    and dist: "distinct buses"
    and up: "loc_list v_dev_allowed_upper (df_index v) = Inr upper"
    and lo: "loc_list v_dev_allowed_lower (df_index v) = Inr lower"
    and b: "b \<in> set buses"
    and over: "\<exists>(t, u) \<in> set (zip (df_index v) upper). df_at v t b > u"
    and under: "\<exists>(t, l) \<in> set (zip (df_index v) lower). df_at v t b < l"
  shows "\<exists>uv ov.
      voltage_diff edisgo_obj buses v_dev_allowed_upper v_dev_allowed_lower = Inr (uv, ov)
    \<and> (b \<in> fst ` set ov) \<noteq> (b \<in> fst ` set uv)
    \<and> (Max (set (map (\<lambda>(t, u). df_at v t b - u) (zip (df_index v) upper)))
         > Max (set (map (\<lambda>(t, l). l - df_at v t b) (zip (df_index v) lower)))
       \<longrightarrow> b \<in> fst ` set ov)
    \<and> (Max (set (map (\<lambda>(t, l). l - df_at v t b) (zip (df_index v) lower)))
         > Max (set (map (\<lambda>(t, u). df_at v t b - u) (zip (df_index v) upper)))
       \<longrightarrow> b \<in> fst ` set uv)
    \<and> (Max (set (map (\<lambda>(t, l). l - df_at v t b) (zip (df_index v) lower)))
         = Max (set (map (\<lambda>(t, u). df_at v t b - u) (zip (df_index v) upper)))
       \<longrightarrow> b \<in> fst ` set uv)
    \<and> distinct (map fst (uv @ ov))"
proof -
  define tix where "tix = df_index v"
  define row where "row = (\<lambda>c. map (\<lambda>t. df_at v t c) tix)"
  define dov where "dov = (\<lambda>c. map (\<lambda>(x, u). x - u) (zip (row c) upper))"
  define duv where "duv = (\<lambda>c. map (\<lambda>(x, l). - x + l) (zip (row c) lower))"
  define is_over where "is_over = (\<lambda>c. list_ex (\<lambda>(x, u). x > u) (zip (row c) upper))"
  define is_under where "is_under = (\<lambda>c. list_ex (\<lambda>(x, l). x < l) (zip (row c) lower))"
  define higher where "higher = (\<lambda>c. nan_gt (row_max (dov c)) (row_max (duv c)))"
  define both where "both = filter (\<lambda>c. c \<in> set (filter is_under buses)) (filter is_over buses)"
  define ov1 where "ov1 = filter higher both"
  define uv1 where "uv1 = filter (\<lambda>c. c \<notin> set ov1) both"
  define bov where "bov = filter (\<lambda>c. c \<notin> set both) (filter is_over buses)"
  define buv where "buv = filter (\<lambda>c. c \<notin> set both) (filter is_under buses)"
  have eq: "voltage_diff edisgo_obj buses v_dev_allowed_upper v_dev_allowed_lower
      = Inr (map (\<lambda>c. (c, duv c)) (uv1 @ buv), map (\<lambda>c. (c, dov c)) (ov1 @ bov))"
    unfolding voltage_diff_def loc_columns_def Let_def buv_def bov_def uv1_def ov1_def
      both_def higher_def is_under_def is_over_def duv_def dov_def row_def tix_def
    using cols up lo unfolding v_def
    by (simp only: if_True sum.case dataframe.select_convs prod.case)
  have lu: "length upper = length tix" and ll: "length lower = length tix"
    using up lo by (simp_all add: loc_list_length tix_def)
  have b_over: "is_over b"
    using over unfolding is_over_def row_def tix_def by (simp add: list_ex_zip_row)
  have b_under: "is_under b"
    using under unfolding is_under_def row_def tix_def by (simp add: list_ex_zip_row)
  have b_both: "b \<in> set both"
    using b b_over b_under by (simp add: both_def)
  have ne: "tix \<noteq> []" using over unfolding tix_def by auto
  have dov_eq: "dov b = map (\<lambda>(t, u). df_at v t b - u) (zip tix upper)"
    unfolding dov_def row_def by (simp add: zip_map1 case_prod_unfold)
  have duv_eq: "duv b = map (\<lambda>(t, l). l - df_at v t b) (zip tix lower)"
    unfolding duv_def row_def by (simp add: zip_map1 case_prod_unfold)
  have dov_ne: "dov b \<noteq> []" and duv_ne: "duv b \<noteq> []"
    unfolding dov_eq duv_eq using ne lu ll by auto
  have cond: "higher b \<longleftrightarrow>
      Max (set (map (\<lambda>(t, u). df_at v t b - u) (zip tix upper)))
        > Max (set (map (\<lambda>(t, l). l - df_at v t b) (zip tix lower)))"
    unfolding higher_def using nan_gt_row_max [OF dov_ne duv_ne] unfolding dov_eq duv_eq .
  have in_ov: "b \<in> fst ` set (map (\<lambda>c. (c, dov c)) (ov1 @ bov)) \<longleftrightarrow> higher b"
    unfolding fst_set_rows using b_both by (auto simp: ov1_def bov_def)
  have in_uv: "b \<in> fst ` set (map (\<lambda>c. (c, duv c)) (uv1 @ buv)) \<longleftrightarrow> \<not> higher b"
    unfolding fst_set_rows using b_both by (auto simp: uv1_def ov1_def buv_def)
  have "distinct ((uv1 @ buv) @ (ov1 @ bov))"
    using dist by (auto simp: uv1_def ov1_def buv_def bov_def both_def)
  then have d: "distinct (map fst (map (\<lambda>c. (c, duv c)) (uv1 @ buv) @ map (\<lambda>c. (c, dov c)) (ov1 @ bov)))"
    unfolding map_append map_fst_rows by simp
  show ?thesis
    unfolding eq using in_ov in_uv cond d unfolding tix_def by auto
qed


theorem voltage_diff_worst_case_witness:
  "\<exists>uv ov.
     voltage_diff both_scenario [''Bus_1'', ''Bus_2''] [(0, 1), (1, 1)] [(0, 0.75), (1, 0.75)]
       = Inr (uv, ov)
     \<and> ''Bus_1'' \<in> fst ` set uv \<and> ''Bus_1'' \<notin> fst ` set ov"
proof -
  have v: "v_res (results both_scenario) =
      \<lparr>df_index = [0, 1], df_columns = [''Bus_1'', ''Bus_2''],
       df_at = (\<lambda>t c. if c = ''Bus_1'' then [1.25, 0.25] ! t else 1)\<rparr>"
    by (simp add: both_scenario_def empty_edisgo_def)
  have h1: "list_all (\<lambda>b. b \<in> set (df_columns (v_res (results both_scenario))))
      [''Bus_1'', ''Bus_2'']"
    by (simp add: v)
  have h2: "distinct [''Bus_1'', ''Bus_2'']" by simp
  have h3: "loc_list [(0, 1), (1, 1)] (df_index (v_res (results both_scenario)))
      = Inr [1, 1::real]"
    by (simp add: v lookup_def)
  have h4: "loc_list [(0, 0.75), (1, 0.75)] (df_index (v_res (results both_scenario)))
      = Inr [0.75, 0.75::real]"
    by (simp add: v lookup_def)
  have h5: "''Bus_1'' \<in> set [''Bus_1'', ''Bus_2'']" by simp
  have h6: "\<exists>(t, u) \<in> set (zip (df_index (v_res (results both_scenario))) [1, 1::real]).
      df_at (v_res (results both_scenario)) t ''Bus_1'' > u"
    by (simp add: v)
  have h7: "\<exists>(t, l) \<in> set (zip (df_index (v_res (results both_scenario))) [0.75, 0.75::real]).
      df_at (v_res (results both_scenario)) t ''Bus_1'' < l"
    by (simp add: v)
  have peak: "Max (set (map (\<lambda>(t, l). l - df_at (v_res (results both_scenario)) t ''Bus_1'')
        (zip (df_index (v_res (results both_scenario))) [0.75, 0.75::real])))
      > Max (set (map (\<lambda>(t, u). df_at (v_res (results both_scenario)) t ''Bus_1'' - u)
        (zip (df_index (v_res (results both_scenario))) [1, 1::real])))"
    by (simp add: v)
  from voltage_diff_worst_case [OF h1 h2 h3 h4 h5 h6 h7] peak
  show ?thesis by blast
qed

subsection \<open>Order of the violation report\<close>






subsection \<open>Allowed load of lines\<close>

lemma filter_same_name:
  "distinct (map nm xs) \<Longrightarrow> x \<in> set xs \<Longrightarrow> filter (\<lambda>y. nm y = nm x) xs = [x]"
proof (induction xs)
  case Nil
  then show ?case by simp
next
  case (Cons a xs)
  show ?case
  proof (cases "x = a")
    case True
    have "nm a \<notin> nm ` set xs" using Cons.prems(1) by simp
    then have "\<forall>y \<in> set xs. nm y \<noteq> nm a" by (metis imageI)
    then have "filter (\<lambda>y. nm y = nm a) xs = []"
      by (simp add: filter_empty_conv)
    with True show ?thesis by simp
  next
    case False
    with Cons.prems have "x \<in> set xs" by simp
    moreover from this Cons.prems(1) have "nm a \<noteq> nm x" by auto
    ultimately show ?thesis using Cons by simp
  qed
qed

lemma loc_lines_names:
  "distinct (map line_name df) \<Longrightarrow> set xs \<subseteq> set df \<Longrightarrow> loc_lines df (map line_name xs) = xs"
  by (induction xs) (simp_all add: loc_lines_def filter_same_name)

lemma map_of_named:
  "distinct (map nm xs) \<Longrightarrow> x \<in> set xs \<Longrightarrow>
   map_of (map (\<lambda>l. (nm l, h l)) xs) (nm x) = Some (h x)"
  by (induction xs) (auto simp: image_iff)

lemma map_of_named_None:
  "nm x \<notin> nm ` set xs \<Longrightarrow> map_of (map (\<lambda>l. (nm l, h l)) xs) (nm x) = None"
  by (induction xs) auto

lemma name_in_filter:
  "distinct (map nm xs) \<Longrightarrow> x \<in> set xs \<Longrightarrow> nm x \<in> nm ` set (filter P xs) \<longleftrightarrow> P x"
  by (auto simp: distinct_map dest: inj_onD)

lemma allowed_load_per_case_value:
  assumes f: "lookup (grid_expansion_load_factors e) (vl @ ''_'' @ case_name c @ ''_line'')
      = Inr f"
    and dist: "distinct (map line_name lines)"
    and l: "l \<in> set lines"
  shows "\<exists>row. allowed_load_per_case e vl lines c = Inr row
    \<and> map_of row (line_name l) = Some
        (if f = 1 then line_s_nom l
         else if line_bus0 l \<in> set (concat (rings (topology e)))
                \<and> line_bus1 l \<in> set (concat (rings (topology e)))
         then line_s_nom l * f
         else line_s_nom l * 1)"
proof (cases "f = 1")
  case True
  then show ?thesis
    using f map_of_named [where nm = line_name and h = "\<lambda>l. line_s_nom l * f", OF dist l]
    by (simp add: allowed_load_per_case_def)
next
  case False
  define P where "P = (\<lambda>l::line. line_bus0 l \<in> set (concat (rings (topology e)))
      \<and> line_bus1 l \<in> set (concat (rings (topology e))))"
  define cyc where "cyc = filter P lines"
  define rad where "rad = filter (\<lambda>l. line_name l \<notin> set (map line_name cyc)) lines"
  have eq: "allowed_load_per_case e vl lines c =
      Inr (map (\<lambda>l. (line_name l, line_s_nom l * f)) (loc_lines lines (map line_name cyc))
         @ map (\<lambda>l. (line_name l, line_s_nom l)) (loc_lines lines (map line_name rad)))"
    using f False by (simp add: allowed_load_per_case_def Let_def cyc_def rad_def P_def)
  have c1: "loc_lines lines (map line_name cyc) = cyc"
    using dist by (intro loc_lines_names) (auto simp: cyc_def)
  have c2: "loc_lines lines (map line_name rad) = rad"
    using dist by (intro loc_lines_names) (auto simp: rad_def)
  have dc: "distinct (map line_name cyc)" and dr: "distinct (map line_name rad)"
    using dist by (simp_all add: cyc_def rad_def distinct_map_filter)
  have in_cyc: "line_name l \<in> line_name ` set cyc \<longleftrightarrow> P l"
    unfolding cyc_def using dist l by (rule name_in_filter)
  show ?thesis
  proof (cases "P l")
    case True
    then have "l \<in> set cyc" using l by (simp add: cyc_def)
    then have "map_of (map (\<lambda>l. (line_name l, line_s_nom l * f)) cyc) (line_name l)
        = Some (line_s_nom l * f)"
      by (rule map_of_named [where nm = line_name and h = "\<lambda>l. line_s_nom l * f", OF dc])
    then show ?thesis
      unfolding eq c1 c2 using True False by (simp add: P_def map_add_def)
  next
    case np: False
    then have nin: "line_name l \<notin> line_name ` set cyc" using in_cyc by simp
    then have "l \<in> set rad" using l by (simp add: rad_def)
    then have "map_of (map (\<lambda>l. (line_name l, line_s_nom l)) rad) (line_name l)
        = Some (line_s_nom l)"
      by (rule map_of_named [where nm = line_name and h = line_s_nom, OF dr])
    moreover have "map_of (map (\<lambda>l. (line_name l, line_s_nom l * f)) cyc) (line_name l) = None"
      using nin by (rule map_of_named_None)
    ultimately show ?thesis
      unfolding eq c1 c2 using np False by (auto simp: P_def map_add_def)
  qed
qed

text \<open>
  C2. Let \<open>lines\<close> be the lines of the voltage level (the selection returns them for
  \<^verbatim>\<open>"mv"\<close> and \<^verbatim>\<open>"lv"\<close> and for no other string), with distinct names, let the
  configuration hold a load factor \<open>factor c\<close> for the level and each case \<open>c\<close>, and let every
  time step of the power flow have a case. Then the allowed-load table has one row per
  time step of the power flow, and its value for a line at a time step of case \<open>c\<close> is
  \<open>s_nom\<close> when \<open>factor c\<close> is 1, whether or not the line is on a ring; otherwise it is
  \<open>s_nom * factor c\<close> for a line with both end buses among the ring buses and \<open>s_nom * 1\<close>
  for every other line.
\<close>

theorem lines_allowed_load_by_case:
  assumes lines: "lines_in_voltage_level edisgo_obj voltage_level = Inr lines"
    and dist: "distinct (map line_name lines)"
    and factor: "\<And>c. lookup (grid_expansion_load_factors edisgo_obj)
        (voltage_level @ ''_'' @ case_name c @ ''_line'') = Inr (factor c)"
    and cases: "loc_list (timesteps_load_feedin_case edisgo_obj)
        (df_index (i_res (results edisgo_obj))) = Inr cases"
  shows "\<exists>tbl.
      lines_allowed_load_voltage_level edisgo_obj voltage_level = Inr tbl
    \<and> map fst tbl = df_index (i_res (results edisgo_obj))
    \<and> (\<forall>i < length tbl. \<forall>l \<in> set lines.
         map_of (snd (tbl ! i)) (line_name l) = Some
           (if factor (cases ! i) = 1 then line_s_nom l
            else if line_bus0 l \<in> set (concat (rings (topology edisgo_obj)))
                   \<and> line_bus1 l \<in> set (concat (rings (topology edisgo_obj)))
            then line_s_nom l * factor (cases ! i)
            else line_s_nom l * 1))"
proof -
  let ?val = "\<lambda>c l. (if factor c = 1 then line_s_nom l
            else if line_bus0 l \<in> set (concat (rings (topology edisgo_obj)))
                   \<and> line_bus1 l \<in> set (concat (rings (topology edisgo_obj)))
            then line_s_nom l * factor c
            else line_s_nom l * 1)"
  have total: "\<exists>row. allowed_load_per_case edisgo_obj voltage_level lines c = Inr row" for c
    using factor [of c]
    by (auto simp: allowed_load_per_case_def Let_def)
  obtain fi where fi: "allowed_load_per_case edisgo_obj voltage_level lines feed_in_case = Inr fi"
    using total by blast
  obtain lc where lc: "allowed_load_per_case edisgo_obj voltage_level lines load_case = Inr lc"
    using total by blast
  define sel where "sel = (\<lambda>c. case c of feed_in_case \<Rightarrow> fi | load_case \<Rightarrow> lc)"
  have sel: "allowed_load_per_case edisgo_obj voltage_level lines c = Inr (sel c)" for c
    by (cases c) (simp_all add: sel_def fi lc)
  have val: "map_of (sel c) (line_name l) = Some (?val c l)" if "l \<in> set lines" for c l
    using allowed_load_per_case_value [OF factor dist that, of c] sel [of c] by auto
  define tbl where "tbl = zip (df_index (i_res (results edisgo_obj))) (map sel cases)"
  have len: "length cases = length (df_index (i_res (results edisgo_obj)))"
    using cases by (rule loc_list_length)
  have eq: "lines_allowed_load_voltage_level edisgo_obj voltage_level = Inr tbl"
    unfolding lines_allowed_load_voltage_level_def tbl_def sel_def
    by (simp add: lines fi lc cases)
  have idx: "map fst tbl = df_index (i_res (results edisgo_obj))"
    unfolding tbl_def using len by simp
  have rows: "snd (tbl ! i) = sel (cases ! i)" if "i < length tbl" for i
    using that len unfolding tbl_def by simp
  show ?thesis
    using eq idx rows val by auto
qed

theorem lines_allowed_load_by_case_witness:
  "\<exists>tbl. lines_allowed_load_voltage_level ring_scenario ''mv'' = Inr tbl
     \<and> map fst tbl = [0, 1]
     \<and> map_of (snd (tbl ! 0)) ''Line_AB'' = Some 0.5
     \<and> map_of (snd (tbl ! 0)) ''Line_BC'' = Some 0.5
     \<and> map_of (snd (tbl ! 0)) ''Line_CD'' = Some 1
     \<and> map_of (snd (tbl ! 1)) ''Line_AB'' = Some 1"
proof -
  define factor where "factor = (\<lambda>c. case c of load_case \<Rightarrow> 0.5 | feed_in_case \<Rightarrow> (1::real))"
  have h1: "lines_in_voltage_level ring_scenario ''mv'' = Inr ring_lines"
    by (simp add: lines_in_voltage_level_def ring_scenario_def empty_grid_def)
  have h2: "distinct (map line_name ring_lines)"
    by (simp add: ring_lines_def)
  have h3: "lookup (grid_expansion_load_factors ring_scenario)
        (''mv'' @ ''_'' @ case_name c @ ''_line'') = Inr (factor c)" for c
    by (cases c) (simp_all add: ring_scenario_def lookup_def factor_def)
  have h4: "loc_list (timesteps_load_feedin_case ring_scenario)
        (df_index (i_res (results ring_scenario))) = Inr [load_case, feed_in_case]"
    by (simp add: ring_scenario_def lookup_def)
  from lines_allowed_load_by_case [OF h1 h2 h3 h4]
  obtain tbl where
    r: "lines_allowed_load_voltage_level ring_scenario ''mv'' = Inr tbl"
    and ix: "map fst tbl = df_index (i_res (results ring_scenario))"
    and v: "\<And>i l. i < length tbl \<Longrightarrow> l \<in> set ring_lines \<Longrightarrow>
         map_of (snd (tbl ! i)) (line_name l) = Some
           (if factor ([load_case, feed_in_case] ! i) = 1 then line_s_nom l
            else if line_bus0 l \<in> set (concat (rings (topology ring_scenario)))
                   \<and> line_bus1 l \<in> set (concat (rings (topology ring_scenario)))
            then line_s_nom l * factor ([load_case, feed_in_case] ! i)
            else line_s_nom l * 1)"
    by blast
  have ix': "map fst tbl = [0, 1]" using ix by (simp add: ring_scenario_def)
  then have len: "length tbl = 2" by (metis length_map length_Cons list.size(3) numeral_2_eq_2)
  have rings: "concat (rings (topology ring_scenario)) = [''A'', ''B'', ''C'']"
    by (simp add: ring_scenario_def)
  have a: "map_of (snd (tbl ! 0)) ''Line_AB'' = Some 0.5"
    using v [of 0 "\<lparr>line_name = ''Line_AB'', line_bus0 = ''A'', line_bus1 = ''B'', line_s_nom = 1\<rparr>"]
    by (simp add: len ring_lines_def rings factor_def)
  have b: "map_of (snd (tbl ! 0)) ''Line_BC'' = Some 0.5"
    using v [of 0 "\<lparr>line_name = ''Line_BC'', line_bus0 = ''B'', line_bus1 = ''C'', line_s_nom = 1\<rparr>"]
    by (simp add: len ring_lines_def rings factor_def)
  have c: "map_of (snd (tbl ! 0)) ''Line_CD'' = Some 1"
    using v [of 0 "\<lparr>line_name = ''Line_CD'', line_bus0 = ''C'', line_bus1 = ''D'', line_s_nom = 1\<rparr>"]
    by (simp add: len ring_lines_def rings factor_def)
  have d: "map_of (snd (tbl ! 1)) ''Line_AB'' = Some 1"
    using v [of 1 "\<lparr>line_name = ''Line_AB'', line_bus0 = ''A'', line_bus1 = ''B'', line_s_nom = 1\<rparr>"]
    by (simp add: len ring_lines_def rings factor_def)
  show ?thesis using r ix' a b c d by (intro exI [of _ tbl]) simp
qed

subsection \<open>Overload of stations and lines\<close>

lemma row_min_Min: "xs \<noteq> [] \<Longrightarrow> row_min xs = Some (Min (set xs))"
proof (cases xs)
  case Nil
  assume "xs \<noteq> []"
  with Nil show ?thesis by simp
next
  case (Cons a list)
  have "Min (set (a # list)) = fold min list a" by (rule Min.set_eq_fold)
  with Cons show ?thesis by simp
qed

lemma first_min_props:
  "first_min best ps \<in> set (best # ps)
   \<and> snd (first_min best ps) = Min (snd ` set (best # ps))"
proof (induction ps arbitrary: best)
  case Nil
  show ?case by simp
next
  case (Cons p ps)
  let ?b = "if snd p < snd best then p else best"
  from Cons [of ?b]
  have mem: "first_min ?b ps \<in> set (?b # ps)"
    and val: "snd (first_min ?b ps) = Min (snd ` set (?b # ps))" by blast+
  have "Min (snd ` set (?b # ps)) = Min (snd ` set (best # p # ps))"
  proof (cases "ps = []")
    case True
    then show ?thesis by (auto simp: min_def)
  next
    case False
    then have ne: "snd ` set ps \<noteq> {}" by simp
    have fin: "finite (snd ` set ps)" by simp
    show ?thesis
      using ne fin by (auto simp: min_def)
  qed
  with mem val show ?case by auto
qed

lemma idxmin_attains:
  assumes "ps \<noteq> []"
  shows "\<exists>t. idxmin ps = Some t \<and> (t, Min (snd ` set ps)) \<in> set ps"
proof -
  from assms obtain p rest where ps: "ps = p # rest" by (cases ps) auto
  from first_min_props [of p rest]
  have "first_min p rest \<in> set ps" and "snd (first_min p rest) = Min (snd ` set ps)"
    unfolding ps by blast+
  then have "(fst (first_min p rest), Min (snd ` set ps)) \<in> set ps"
    by (metis prod.collapse)
  then show ?thesis unfolding ps by simp
qed

lemma set_series_align:
  "(t, x) \<in> set (series_align f a b) \<longleftrightarrow>
     (\<exists>y z. (t, y) \<in> set a \<and> map_of b t = Some z \<and> x = f y z)"
  unfolding series_align_def
  by (induction a) (auto split: option.splits)

lemma transformer_load_factor_labels:
  "transformer_load_factor cfg vl tcs = Inr lf \<Longrightarrow> map fst lf = map fst tcs"
  by (induction cfg vl tcs arbitrary: lf rule: transformer_load_factor.induct)
     (auto split: sum.splits)


lemma station_allowed_load_labels:
  assumes "station_allowed_load e grid = Inr allowed"
    and "grid_class_of grid = LVGrid \<and> vl = ''lv'' \<or> grid_class_of grid = MVGrid \<and> vl = ''mv''"
    and "transformer_load_factor (grid_expansion_load_factors e) vl
           (timesteps_load_feedin_case e) = Inr load_factor"
  shows "map fst allowed = map fst load_factor"
  using assms
  by (auto simp: station_allowed_load_def Let_def comp_def case_prod_unfold
      split: grid_class.splits sum.splits)

text \<open>
  C3 (amended). Let the station of an LV or MV grid be overloaded at some time step (the
  allowed load minus the realised load is negative there), with positive load factors.
  Then \<^verbatim>\<open>_station_overload\<close> returns a report of one row, for the grid's station. Its
  \<open>s_missing\<close> is not negative, and it is the absolute value of the smallest quotient
  of residual by load factor, both of the same time step, over all time steps; the
  time index is a time step at which that smallest quotient stands.
\<close>

theorem station_overload_s_missing:
  fixes edisgo_obj :: edisgo and grid :: grid
    and s_station_allowed s_station_pfa load_factor :: series
  defines "q \<equiv> series_align (\<lambda>r f. r / f)
      (series_align (\<lambda>a p. a - p) s_station_allowed s_station_pfa) load_factor"
  assumes cls: "grid_class_of grid = LVGrid \<and> voltage_level = ''lv''
        \<or> grid_class_of grid = MVGrid \<and> voltage_level = ''mv''"
    and pfa: "station_load edisgo_obj grid = Inr s_station_pfa"
    and allowed: "station_allowed_load edisgo_obj grid = Inr s_station_allowed"
    and lf: "transformer_load_factor (grid_expansion_load_factors edisgo_obj) voltage_level
        (timesteps_load_feedin_case edisgo_obj) = Inr load_factor"
    and pos: "\<forall>(t, f) \<in> set load_factor. 0 < f"
    and over: "\<exists>(t, r) \<in> set (series_align (\<lambda>a p. a - p) s_station_allowed s_station_pfa).
        r < 0"
  shows "\<exists>row. station_overload edisgo_obj grid = Inr [row]
    \<and> st_station row = station_name grid
    \<and> 0 \<le> s_missing row
    \<and> s_missing row = \<bar>Min (snd ` set q)\<bar>
    \<and> (st_time_index row, Min (snd ` set q)) \<in> set q"
proof -
  define res where "res = series_align (\<lambda>a p. a - p) s_station_allowed s_station_pfa"
  define neg where "neg = filter (\<lambda>(t, r). r < 0) res"
  define sm where "sm = series_align (\<lambda>r f. r / f) neg load_factor"
  have q: "q = series_align (\<lambda>r f. r / f) res load_factor"
    by (simp add: q_def res_def)
  have neg_ne: "neg \<noteq> []"
    using over unfolding neg_def res_def by (auto simp: filter_empty_conv)
  have lvl: "(case grid_class_of grid of LVGrid \<Rightarrow> Inr ''lv'' | MVGrid \<Rightarrow> Inr ''mv''
      | OtherGrid \<Rightarrow> Inl InvalidArgument) = (Inr voltage_level :: error + string)"
    using cls by auto
  have eq: "station_overload edisgo_obj grid =
      (case (row_min (map snd sm), idxmin sm) of
         (Some m, Some t) \<Rightarrow>
           Inr [\<lparr>st_station = station_name grid, s_missing = \<bar>m\<bar>,
                 st_time_index = t, st_grid = grid\<rparr>]
       | _ \<Rightarrow> Inl EmptySequence)"
    unfolding station_overload_def lvl pfa allowed Let_def
    using neg_ne by (simp add: lf sm_def neg_def res_def)
  have labels: "map fst s_station_allowed = map fst load_factor"
    using allowed cls lf by (rule station_allowed_load_labels)
  have factor: "\<exists>f. map_of load_factor t = Some f \<and> 0 < f" if "(t, r) \<in> set res" for t r
  proof -
    from that have "t \<in> fst ` set s_station_allowed"
      unfolding res_def set_series_align by force
    then have "t \<in> fst ` set load_factor"
      using labels by (metis set_map)
    then obtain f where f: "map_of load_factor t = Some f"
      by (metis map_of_eq_None_iff not_Some_eq)
    then have "(t, f) \<in> set load_factor" by (rule map_of_SomeD)
    with pos f show ?thesis by auto
  qed
  have sm_iff: "(t, x) \<in> set sm \<longleftrightarrow> (t, x) \<in> set q \<and> x < 0" for t x
  proof
    assume "(t, x) \<in> set sm"
    then obtain r f where r: "(t, r) \<in> set res" "r < 0" and f: "map_of load_factor t = Some f"
      and x: "x = r / f"
      unfolding sm_def neg_def set_series_align by auto
    from factor [OF r(1)] f have "0 < f" by simp
    with r x have "x < 0" by (simp add: divide_neg_pos)
    moreover have "(t, x) \<in> set q"
      unfolding q set_series_align using r f x by blast
    ultimately show "(t, x) \<in> set q \<and> x < 0" by simp
  next
    assume a: "(t, x) \<in> set q \<and> x < 0"
    then obtain r f where r: "(t, r) \<in> set res" and f: "map_of load_factor t = Some f"
      and x: "x = r / f"
      unfolding q set_series_align by auto
    from factor [OF r] f have fp: "0 < f" by simp
    from a x fp have "r < 0" by (simp add: divide_less_0_iff)
    then show "(t, x) \<in> set sm"
      unfolding sm_def neg_def set_series_align using r f x by auto
  qed
  have sm_ne: "sm \<noteq> []"
  proof -
    from neg_ne obtain t r where tr: "(t, r) \<in> set neg"
      by (cases neg) auto
    then have r: "(t, r) \<in> set res" "r < 0" by (auto simp: neg_def)
    from factor [OF r(1)] obtain f where "map_of load_factor t = Some f" by blast
    with tr have "(t, r / f) \<in> set sm"
      unfolding sm_def set_series_align by blast
    then show ?thesis by auto
  qed
  define m where "m = Min (snd ` set sm)"
  from idxmin_attains [OF sm_ne] obtain t where
    t: "idxmin sm = Some t" and tm: "(t, m) \<in> set sm"
    unfolding m_def by blast
  have rm: "row_min (map snd sm) = Some m"
    using sm_ne by (simp add: row_min_Min m_def)
  have m_neg: "m < 0" and m_q: "(t, m) \<in> set q"
    using tm sm_iff by blast+
  have "Min (snd ` set q) = m"
  proof (rule Min_eqI)
    show "finite (snd ` set q)" by simp
    show "m \<in> snd ` set q" using m_q by force
    fix y assume "y \<in> snd ` set q"
    then obtain u where u: "(u, y) \<in> set q" by auto
    show "m \<le> y"
    proof (cases "y < 0")
      case True
      with u have "(u, y) \<in> set sm" using sm_iff by blast
      then have "y \<in> snd ` set sm" by force
      then show ?thesis unfolding m_def by simp
    next
      case False
      with m_neg show ?thesis by simp
    qed
  qed
  then show ?thesis
    unfolding eq rm t using m_q by simp
qed

theorem station_overload_s_missing_witness:
  "\<exists>row. station_overload station_scenario_063 lv_grid_063 = Inr [row]
     \<and> s_missing row = 0.07 \<and> st_time_index row = 0"
proof -
  have h1: "grid_class_of lv_grid_063 = LVGrid \<and> ''lv'' = ''lv''
      \<or> grid_class_of lv_grid_063 = MVGrid \<and> ''lv'' = ''mv''"
    by (simp add: lv_grid_063_def)
  have h2: "station_load station_scenario_063 lv_grid_063 = Inr [(0, 0.7)]"
    by (simp add: station_load_def station_scenario_063_def lv_grid_063_def empty_edisgo_def
        loc_columns_def)
  have h3: "station_allowed_load station_scenario_063 lv_grid_063 = Inr [(0, 0.63)]"
    by (simp add: station_allowed_load_def station_scenario_063_def lv_grid_063_def
        empty_edisgo_def lookup_def)
  have h4: "transformer_load_factor (grid_expansion_load_factors station_scenario_063) ''lv''
      (timesteps_load_feedin_case station_scenario_063) = Inr [(0, 1)]"
    by (simp add: station_scenario_063_def empty_edisgo_def lookup_def)
  have h5: "\<forall>(t, f) \<in> set [(0::nat, 1::real)]. 0 < f" by simp
  have h6: "\<exists>(t, r) \<in> set (series_align (\<lambda>a p. a - p) [(0, 0.63)] [(0, 0.7)]). r < 0"
    by (simp add: series_align_def)
  have q: "series_align (\<lambda>r f. r / f) (series_align (\<lambda>a p. a - p) [(0, 0.63)] [(0, 0.7)])
      [(0, 1)] = [(0, - 0.07)]"
    by (simp add: series_align_def)
  from station_overload_s_missing [OF h1 h2 h3 h4 h5 h6]
  show ?thesis unfolding q by auto
qed

text \<open>
  With a load factor of 1.0 at time step 0 and of 0.5 at time step 1, residuals of -0.5
  and -0.375: the code reports 0.75 at time step 1, the smallest quotient, where the
  smallest residual divided by its load factor is 0.5, at time step 0.
\<close>

theorem station_overload_spec_counterexample:
  "station_load station_scenario lv_grid_1 = Inr [(0, 1.5), (1, 0.875)]
   \<and> station_allowed_load station_scenario lv_grid_1 = Inr [(0, 1), (1, 0.5)]
   \<and> transformer_load_factor (grid_expansion_load_factors station_scenario) ''lv''
        (timesteps_load_feedin_case station_scenario) = Inr [(0, 1), (1, 0.5)]
   \<and> station_overload station_scenario lv_grid_1 =
        Inr [\<lparr>st_station = ''LVGrid_1_station'', s_missing = 0.75, st_time_index = 1,
               st_grid = lv_grid_1\<rparr>]
   \<and> spec_s_missing (series_align (\<lambda>a p. a - p) [(0, 1), (1, 0.5)] [(0, 1.5), (1, 0.875)])
        [(0, 1), (1, 0.5)] = Some (0.5, 0)"
proof (intro conjI)
  show "station_load station_scenario lv_grid_1 = Inr [(0, 1.5), (1, 0.875)]"
    by (simp add: station_load_def station_scenario_def lv_grid_1_def empty_edisgo_def
        loc_columns_def)
  show "station_allowed_load station_scenario lv_grid_1 = Inr [(0, 1), (1, 0.5)]"
    by (simp add: station_allowed_load_def station_scenario_def lv_grid_1_def
        empty_edisgo_def lookup_def)
  show "transformer_load_factor (grid_expansion_load_factors station_scenario) ''lv''
        (timesteps_load_feedin_case station_scenario) = Inr [(0, 1), (1, 0.5)]"
    by (simp add: station_scenario_def empty_edisgo_def lookup_def)
  show "station_overload station_scenario lv_grid_1 =
        Inr [\<lparr>st_station = ''LVGrid_1_station'', s_missing = 0.75, st_time_index = 1,
               st_grid = lv_grid_1\<rparr>]"
    by (simp add: station_overload_def station_load_def station_allowed_load_def
        station_scenario_def lv_grid_1_def empty_edisgo_def loc_columns_def lookup_def
        series_align_def Let_def)
  show "spec_s_missing (series_align (\<lambda>a p. a - p) [(0, 1), (1, 0.5)] [(0, 1.5), (1, 0.875)])
        [(0, 1), (1, 0.5)] = Some (0.5, 0)"
    by (simp add: spec_s_missing_def series_align_def)
qed

subsection \<open>The checks without results of a power flow\<close>

lemma transformer_load_factor_error:
  "transformer_load_factor cfg vl tcs = Inl er \<Longrightarrow> er = KeyError"
  by (induction cfg vl tcs rule: transformer_load_factor.induct)
     (auto simp: lookup_def split: sum.splits option.splits)

lemma station_load_error:
  "station_load e grid = Inl er \<Longrightarrow> er \<noteq> NoResultsAvailable"
  by (auto simp: station_load_def loc_columns_def Let_def split: grid_class.splits if_splits)

lemma station_allowed_load_error:
  "station_allowed_load e grid = Inl er \<Longrightarrow> er \<noteq> NoResultsAvailable"
  by (auto simp: station_allowed_load_def Let_def
      split: grid_class.splits sum.splits dest: transformer_load_factor_error)

lemma station_overload_error:
  "station_overload e grid \<noteq> Inl NoResultsAvailable"
proof
  assume a: "station_overload e grid = Inl NoResultsAvailable"
  then show False
    unfolding station_overload_def Let_def
    by (auto split: grid_class.splits sum.splits if_splits option.splits prod.splits
        dest: transformer_load_factor_error station_load_error station_allowed_load_error)
qed

text \<open>
  C6 (amended). The line overload check fails with \<open>NoResultsAvailable\<close> when
  \<^verbatim>\<open>i_res\<close> is empty. The station overload check has no such guard and never fails with
  \<open>NoResultsAvailable\<close>: when the result tables have no columns it fails with
  \<open>PrerequisiteMissing\<close> for the MV grid, since no MV line is in the results, and with
  the \<open>KeyError\<close> of the lookup of the station's transformers for an LV grid that has a
  transformer.
\<close>

theorem overload_without_results:
  "(df_empty (i_res (results edisgo_obj))
      \<longrightarrow> line_overload edisgo_obj voltage_level = Inl NoResultsAvailable)
   \<and> station_overload edisgo_obj grid \<noteq> Inl NoResultsAvailable
   \<and> (grid_class_of grid = MVGrid \<and> df_columns (i_res (results edisgo_obj)) = []
      \<longrightarrow> station_overload edisgo_obj grid = Inl PrerequisiteMissing)
   \<and> (grid_class_of grid = LVGrid \<and> df_columns (s_res (results edisgo_obj)) = []
        \<and> grid_transformers_df grid \<noteq> []
      \<longrightarrow> station_overload edisgo_obj grid = Inl KeyError)"
proof (intro conjI impI)
  assume "df_empty (i_res (results edisgo_obj))"
  then show "line_overload edisgo_obj voltage_level = Inl NoResultsAvailable"
    by (simp add: line_overload_def)
next
  show "station_overload edisgo_obj grid \<noteq> Inl NoResultsAvailable"
    by (rule station_overload_error)
next
  assume "grid_class_of grid = MVGrid \<and> df_columns (i_res (results edisgo_obj)) = []"
  then show "station_overload edisgo_obj grid = Inl PrerequisiteMissing"
    by (simp add: station_overload_def station_load_def list_ex_iff)
next
  assume a: "grid_class_of grid = LVGrid \<and> df_columns (s_res (results edisgo_obj)) = []
        \<and> grid_transformers_df grid \<noteq> []"
  then have "\<not> list_all (\<lambda>l. l \<in> set (df_columns (s_res (results edisgo_obj))))
      (map trafo_name (grid_transformers_df grid))"
    by (cases "grid_transformers_df grid") simp_all
  with a show "station_overload edisgo_obj grid = Inl KeyError"
    by (simp add: station_overload_def station_load_def loc_columns_def)
qed

theorem overload_without_results_witness:
  "line_overload no_results_scenario ''mv'' = Inl NoResultsAvailable
   \<and> station_overload no_results_scenario (mv_grid (topology no_results_scenario))
       = Inl PrerequisiteMissing
   \<and> station_overload no_results_scenario lv_grid_1 = Inl KeyError"
proof -
  have h1: "df_empty (i_res (results no_results_scenario))"
    by (simp add: df_empty_def no_results_scenario_def empty_edisgo_def empty_df_def)
  have h2: "grid_class_of (mv_grid (topology no_results_scenario)) = MVGrid
      \<and> df_columns (i_res (results no_results_scenario)) = []"
    by (simp add: no_results_scenario_def empty_edisgo_def empty_df_def empty_grid_def)
  have h3: "grid_class_of lv_grid_1 = LVGrid
      \<and> df_columns (s_res (results no_results_scenario)) = []
      \<and> grid_transformers_df lv_grid_1 \<noteq> []"
    by (simp add: no_results_scenario_def empty_edisgo_def empty_df_def lv_grid_1_def)
  from overload_without_results
         [of no_results_scenario "''mv''" "mv_grid (topology no_results_scenario)"]
       overload_without_results [of no_results_scenario "''mv''" lv_grid_1]
       h1 h2 h3
  show ?thesis by blast
qed

text \<open>
  No power flow was run: every result table is empty. The station check of the MV grid
  fails, but with \<open>PrerequisiteMissing\<close>; the station check of an LV grid without a
  transformer returns an empty report.
\<close>

theorem station_overload_no_results_counterexample:
  "df_empty (i_res (results no_results_scenario))
   \<and> df_empty (s_res (results no_results_scenario))
   \<and> df_empty (v_res (results no_results_scenario))
   \<and> pfa_slack (results no_results_scenario) = []
   \<and> station_overload no_results_scenario (mv_grid (topology no_results_scenario))
       = Inl PrerequisiteMissing
   \<and> station_overload no_results_scenario (lv_grid_1\<lparr>grid_transformers_df := []\<rparr>) = Inr []"
  by (simp add: df_empty_def no_results_scenario_def empty_edisgo_def empty_df_def
      empty_grid_def lv_grid_1_def station_overload_def station_load_def
      station_allowed_load_def loc_columns_def lookup_def series_align_def Let_def)

subsection \<open>Aggregating parallel transformers twice\<close>






subsection \<open>Keys and loops of the export\<close>

lemma digit_val_digit: "d < 10 \<Longrightarrow> digit_val (''0123456789'' ! d) = d"
proof -
  assume "d < 10"
  then have "d \<in> {0, 1, 2, 3, 4, 5, 6, 7, 8, 9}" by auto
  then show ?thesis
    by (auto simp: digit_val_def)
qed

lemma nat_of_str_snoc: "nat_of_str (s @ [c]) = 10 * nat_of_str s + digit_val c"
  by (simp add: nat_of_str_def)

lemma nat_of_str_str_nat: "nat_of_str (str_nat n) = n"
proof (induction n rule: str_nat.induct)
  case (1 n)
  show ?case
  proof (cases "n < 10")
    case True
    then show ?thesis
      by (subst str_nat.simps) (simp add: nat_of_str_def digit_val_digit)
  next
    case False
    then have "nat_of_str (str_nat (n div 10)) = n div 10" using 1 by simp
    with False show ?thesis
      by (subst str_nat.simps) (simp add: nat_of_str_snoc digit_val_digit)
  qed
qed

lemma str_nat_inj: "inj str_nat"
  by (rule inj_on_inverseI [where g = nat_of_str]) (rule nat_of_str_str_nat)

lemma update_fresh: "k \<notin> fst ` set al \<Longrightarrow> AList.update k v al = al @ [(k, v)]"
  by (induction al) auto

lemma assign_all_fresh:
  "distinct (map fst kvs) \<Longrightarrow> fst ` set kvs \<inter> fst ` set d = {} \<Longrightarrow>
   assign_all d kvs = d @ kvs"
proof (induction kvs arbitrary: d)
  case Nil
  then show ?case by (simp add: assign_all_def)
next
  case (Cons kv kvs)
  obtain k v where kv: "kv = (k, v)" by (cases kv)
  have fresh: "k \<notin> fst ` set d" using Cons.prems(2) kv by auto
  have "assign_all d (kv # kvs) = assign_all (d @ [(k, v)]) kvs"
    by (simp add: assign_all_def kv update_fresh [OF fresh])
  also have "\<dots> = (d @ [(k, v)]) @ kvs"
  proof (rule Cons.IH)
    show "distinct (map fst kvs)" using Cons.prems(1) by simp
    show "fst ` set kvs \<inter> fst ` set (d @ [(k, v)]) = {}"
      using Cons.prems kv by auto
  qed
  finally show ?case by (simp add: kv)
qed

lemma for_each_all_ok:
  "(\<And>x. x \<in> set xs \<Longrightarrow> f x = Inr (g x)) \<Longrightarrow> for_each f xs = Inr (map g xs)"
  by (induction xs) simp_all

lemma first_pos_member: "x \<in> set xs \<Longrightarrow> \<exists>i. first_pos x xs = Some i"
  by (induction xs) auto

lemma mapping_bus_ok:
  "name \<in> set (map pb_name (psa_buses psa_net)) \<Longrightarrow> \<exists>i. mapping psa_net name ''bus'' = Inr i"
  using first_pos_member [of name "map pb_name (psa_buses psa_net)"]
  by (auto simp: mapping_def)

lemma first_pos_Some_less: "first_pos x xs = Some i \<Longrightarrow> i < length xs \<and> xs ! i = x"
  by (induction xs arbitrary: i) (auto split: if_splits)

lemma in_enumerate0: "(i, x) \<in> set (enumerate 0 xs) \<longleftrightarrow> i < length xs \<and> xs ! i = x"
  by (auto simp: in_set_enumerate_eq)

lemma map_enumerate0: "map (\<lambda>(i, x). f i) (enumerate 0 xs) = map f [0..<length xs]"
  by (rule nth_equalityI) (simp_all add: nth_enumerate_eq)

lemma map_snd_enumerate0: "map (\<lambda>(i, x). f x) (enumerate 0 xs) = map f xs"
  by (rule nth_equalityI) (simp_all add: nth_enumerate_eq)

subsection \<open>The branch section\<close>

text \<open>
  C10. Built into a dictionary whose branch section is still empty, for a network whose
  lines end at buses of the network, \<^verbatim>\<open>_build_branch\<close> returns; the branch section
  then has exactly the keys \<^verbatim>\<open>"1"\<close> to \<^verbatim>\<open>str(len(lines))\<close>, all different, in this
  order; the record under the key of position \<open>i\<close> carries the name of the \<open>i\<close>-th line
  and the index \<open>i + 1\<close>; and no record is marked as a transformer. So there is one
  record per line and none for a transformer, whatever transformers the network has.
\<close>

theorem build_branch_lines_only:
  assumes fresh: "pm_branch pm = []"
    and buses: "\<forall>l \<in> set (psa_lines psa_net).
        pl_bus0 l \<in> set (map pb_name (psa_buses psa_net))
        \<and> pl_bus1 l \<in> set (map pb_name (psa_buses psa_net))"
  shows "\<exists>pm'. build_branch psa_net pm = Inr pm'
    \<and> map fst (pm_branch pm') = map (\<lambda>i. str_nat (i + 1)) [0..<length (psa_lines psa_net)]
    \<and> distinct (map fst (pm_branch pm'))
    \<and> map (\<lambda>(k, r). br_name r) (pm_branch pm') = map pl_name (psa_lines psa_net)
    \<and> map (\<lambda>(k, r). br_index r) (pm_branch pm') = map Suc [0..<length (psa_lines psa_net)]
    \<and> (\<forall>(k, r) \<in> set (pm_branch pm'). \<not> br_transformer r)"
proof -
  let ?lines = "psa_lines psa_net"
  let ?branches = "map line_row_of ?lines @ map trafo_row_of (psa_transformers psa_net)"
  define idx where "idx = (\<lambda>name. case mapping psa_net name ''bus'' of Inr i \<Rightarrow> i | Inl e \<Rightarrow> 0)"
  define g where "g = (\<lambda>(branch_i :: nat, l :: psa_line).
      (str_nat (branch_i + 1),
       \<lparr>br_name = pl_name l, br_br_r = pl_r_pu l, br_br_x = pl_x_pu l,
        br_f_bus = idx (pl_bus0 l), br_t_bus = idx (pl_bus1 l), br_g_to = pl_g_pu l / 2,
        br_g_fr = pl_g_pu l / 2, br_b_to = pl_b_pu l / 2, br_b_fr = pl_b_pu l / 2,
        br_shift = 0, br_br_status = 1, br_rate_a = pl_s_nom l, br_rate_b = 250,
        br_rate_c = 250, br_angmin = - pi / 6, br_angmax = pi / 6,
        br_transformer = False, br_tap = 1, br_index = branch_i + 1\<rparr>))"
  define f where "f = (\<lambda>(branch_i :: nat, l :: psa_line).
                   case mapping psa_net (pl_bus0 l) ''bus'' of
                     Inl e \<Rightarrow> Inl e
                   | Inr idx_f_bus \<Rightarrow>
                  (case mapping psa_net (pl_bus1 l) ''bus'' of
                     Inl e \<Rightarrow> Inl e
                   | Inr idx_t_bus \<Rightarrow>
                  (case nth_err ?branches branch_i of
                     Inl e \<Rightarrow> Inl e
                   | Inr row \<Rightarrow>
                       Inr (str_nat (branch_i + 1),
                            \<lparr>br_name = bw_name row, br_br_r = bw_r_pu row,
                             br_br_x = bw_x_pu row, br_f_bus = idx_f_bus,
                             br_t_bus = idx_t_bus, br_g_to = bw_g_pu row / 2,
                             br_g_fr = bw_g_pu row / 2, br_b_to = bw_b_pu row / 2,
                             br_b_fr = bw_b_pu row / 2,
                             br_shift = (case bw_phase_shift row of None \<Rightarrow> 0 | Some a \<Rightarrow> a),
                             br_br_status = 1, br_rate_a = bw_s_nom row, br_rate_b = 250,
                             br_rate_c = 250, br_angmin = - pi / 6, br_angmax = pi / 6,
                             br_transformer = (bw_tap_ratio row \<noteq> None),
                             br_tap = (case bw_tap_ratio row of None \<Rightarrow> 1 | Some a \<Rightarrow> a),
                             br_index = branch_i + 1\<rparr>))))"
  have step: "f x = Inr (g x)" if "x \<in> set (enumerate 0 ?lines)" for x
  proof -
    obtain i l where x: "x = (i, l)" by (cases x)
    with that have i: "i < length ?lines" and l: "?lines ! i = l"
      by (simp_all add: in_enumerate0)
    then have mem: "l \<in> set ?lines" by auto
    from buses mem obtain a b where a: "mapping psa_net (pl_bus0 l) ''bus'' = Inr a"
      and b: "mapping psa_net (pl_bus1 l) ''bus'' = Inr b"
      using mapping_bus_ok by blast
    have row: "nth_err ?branches i = Inr (line_row_of l)"
      using i l by (simp add: nth_err_def nth_append)
    show ?thesis
      unfolding x f_def g_def
      by (simp add: a b row idx_def line_row_of_def)
  qed
  have recs: "for_each f (enumerate 0 ?lines) = Inr (map g (enumerate 0 ?lines))"
    by (rule for_each_all_ok) (rule step)
  have keys: "map fst (map g (enumerate 0 ?lines))
      = map (\<lambda>i. str_nat (i + 1)) [0..<length ?lines]"
    using map_enumerate0 [of "\<lambda>i. str_nat (i + 1)" ?lines]
    by (simp add: g_def comp_def case_prod_unfold)
  have dist: "distinct (map fst (map g (enumerate 0 ?lines)))"
    unfolding keys
    by (auto simp: distinct_map inj_on_def dest!: injD [OF str_nat_inj])
  have assigned: "assign_all [] (map g (enumerate 0 ?lines)) = map g (enumerate 0 ?lines)"
    using assign_all_fresh [OF dist, of "[]"] by simp
  have eq: "build_branch psa_net pm = Inr (pm\<lparr>pm_branch := map g (enumerate 0 ?lines)\<rparr>)"
    unfolding build_branch_def Let_def f_def [symmetric]
    by (simp add: recs fresh assigned)
  have names: "map (\<lambda>(k, r). br_name r) (map g (enumerate 0 ?lines)) = map pl_name ?lines"
    using map_snd_enumerate0 [of pl_name ?lines]
    by (simp add: g_def comp_def case_prod_unfold)
  have idxs: "map (\<lambda>(k, r). br_index r) (map g (enumerate 0 ?lines))
      = map Suc [0..<length ?lines]"
    using map_enumerate0 [of Suc ?lines]
    by (simp add: g_def comp_def case_prod_unfold)
  have notr: "\<forall>(k, r) \<in> set (map g (enumerate 0 ?lines)). \<not> br_transformer r"
    by (auto simp: g_def)
  show ?thesis
    unfolding eq using keys dist names idxs notr by simp
qed

lemma str_small:
  "str_nat 0 = ''0''" "str_nat 1 = ''1''" "str_nat 2 = ''2''" "str_nat 3 = ''3''"
  "str_nat (Suc 0) = ''1''" "str_nat (Suc (Suc 0)) = ''2''"
  "str_nat (Suc (Suc (Suc 0))) = ''3''"
  by (simp_all add: str_nat.simps [of 0] str_nat.simps [of 1] str_nat.simps [of 2]
      str_nat.simps [of 3] str_nat.simps [of "Suc 0"] str_nat.simps [of "Suc (Suc 0)"]
      str_nat.simps [of "Suc (Suc (Suc 0))"])

theorem build_branch_lines_only_witness:
  "psa_transformers export_net = one_trafo
   \<and> (\<exists>pm'. build_branch export_net init_pm = Inr pm'
        \<and> map fst (pm_branch pm') = [''1'']
        \<and> map (\<lambda>(k, r). br_name r) (pm_branch pm') = [''Line_1''])"
proof -
  have h1: "pm_branch init_pm = []" by (simp add: init_pm_def)
  have h2: "\<forall>l \<in> set (psa_lines export_net).
        pl_bus0 l \<in> set (map pb_name (psa_buses export_net))
        \<and> pl_bus1 l \<in> set (map pb_name (psa_buses export_net))"
    by (simp add: export_net_def)
  have len: "psa_lines export_net =
      [\<lparr>pl_name = ''Line_1'', pl_bus0 = ''Bus_1'', pl_bus1 = ''Bus_2'', pl_r_pu = 0.25,
        pl_x_pu = 0.5, pl_b_pu = 0, pl_g_pu = 0, pl_s_nom = 1\<rparr>]"
    by (simp add: export_net_def)
  have tr: "psa_transformers export_net = one_trafo" by (simp add: export_net_def)
  from build_branch_lines_only [OF h1 h2]
  obtain pm' where "build_branch export_net init_pm = Inr pm'"
    and "map fst (pm_branch pm') = map (\<lambda>i. str_nat (i + 1)) [0..<length (psa_lines export_net)]"
    and "map (\<lambda>(k, r). br_name r) (pm_branch pm') = map pl_name (psa_lines export_net)"
    by blast
  then show ?thesis
    using tr unfolding len by (auto simp: str_small)
qed

subsection \<open>The export without flexible charging points\<close>

lemma emob_timeseries_unbound:
  "build_component_timeseries psa_net ''emob'' edisgo_obj [] flexible_hps = Inl UnboundLocalError"
  by (simp add: build_component_timeseries_def)

lemma to_powermodels_without_flexible_cps:
  "isl (to_powermodels calculate_dependent_values calc edisgo_object [] flexible_hps)"
  unfolding to_powermodels_def build_timeseries_def Let_def emob_timeseries_unbound
  by (simp split: sum.splits)


lemmas export_defs = to_powermodels_def build_bus_def build_gen_def build_branch_def
  build_storage_def build_load_def build_electromobility_def build_heatpumps_def
  build_timeseries_def build_component_timeseries_def mapping_def bus_type_int_def
  assign_all_def nth_err_def drop_loads_def loc_loads_def loc_tcols_def lookup_def
  startswith_def line_row_of_def trafo_row_of_def init_pm_def export_scenario_def
  export_net_def one_trafo_def aggregate_parallel_transformers_def parallel_impedance_def
  drop_last2_def enumerate_eq_zip upt_rec

lemma heatpumps_timeseries_empty:
  "build_component_timeseries psa_net ''heatpumps'' edisgo_obj flexible_cps [] = Inr []"
  by (simp add: build_component_timeseries_def)

text \<open>
  C9. With no flexible charging point the export does not complete: the time series of
  the kind \<^verbatim>\<open>"emob"\<close> binds \<^verbatim>\<open>p_set\<close> to an empty table and leaves \<^verbatim>\<open>pm_comp\<close>
  unbound, so \<^verbatim>\<open>return pm_comp\<close> raises and \<^verbatim>\<open>to_powermodels\<close> with it. The code
  evaluated on the network of two buses, with no flexible charging point and no flexible
  heat pump.
\<close>

theorem to_powermodels_no_flexible_cps_fails:
  "to_powermodels (\<lambda>n. n) parallel_impedance export_scenario [] [] = Inl UnboundLocalError"
  by (simp add: export_defs str_small Let_def)

subsection \<open>Indices of the load section and of its time series\<close>

text \<open>
  C8. The code evaluated on the network of two buses with the home charging point
  flexible. The load section keys the public charging point (0.5 MW) with \<^verbatim>\<open>"1"\<close> and
  the household load \<^verbatim>\<open>Load_1\<close> (0.25 MW) with \<^verbatim>\<open>"2"\<close>; the time series of the loads
  has the profile of \<^verbatim>\<open>Load_1\<close> under the key \<^verbatim>\<open>"1"\<close>, and nothing under \<^verbatim>\<open>"2"\<close>.
\<close>

theorem to_powermodels_load_index_mismatch:
  "\<exists>pm ts.
     to_powermodels (\<lambda>n. n) parallel_impedance export_scenario [''Charging_Point_home_1''] []
       = Inr pm
     \<and> pm_time_series pm = Some ts
     \<and> map (\<lambda>(k, r). (k, load_pd r)) (pm_load pm) = [(''1'', 0.5), (''2'', 0.25)]
     \<and> ts_load ts = [(''1'', TsLoad [0.25, 0.75] [0, 0])]"
  by (simp add: export_defs str_small Let_def)

end
